theory Spec2Isabelle
  imports Main "HOL-Library.Word"
begin

unbundle bit_operations_syntax

section \<open>Values shared by the key-management core\<close>

text \<open>
  A \<open>Uint8Array\<close> or \<open>ArrayBuffer\<close> is the list of its bytes.  Two kinds of text occur.
  A password and a user id are JavaScript strings on which the code applies code-unit
  operations (\<open>password.length\<close>, \<open>c.charCodeAt(0)\<close>): they are lists of UTF-16 code
  units.  Base64 text, error messages and the text handed to the cipher are \<open>string\<close>s,
  read as the bytes of their UTF-8 form.
\<close>

type_synonym bytes = "8 word list"

type_synonym js_string = "16 word list"

text \<open>
  What a rejected promise carries: \<open>Error m\<close> is \<open>new Error(m)\<close> thrown by the code
  itself, \<open>DOMException name message\<close> a rejection by the platform (authenticator,
  \<open>atob\<close>, WebCrypto), \<open>IntegrityError\<close> the failure of the envelope cipher, and
  \<open>StorageError m\<close> the error object the storage client returns.
\<close>

datatype error =
    Error string
  | DOMException string string
  | IntegrityError
  | StorageError string

fun message :: "error \<Rightarrow> string" where
  "message (Error m) = m"
| "message (DOMException name m) = m"
| "message IntegrityError = []"
| "message (StorageError m) = m"

section \<open>The crypto module (\<open>lib/crypto\<close>)\<close>

subsection \<open>Base64\<close>

text \<open>
  Modelled from the spec: \<open>encodeBase64\<close> and \<open>decodeBase64\<close> of \<open>lib/crypto\<close>, whose
  source is not part of the sources at hand.  The spec stores every binary value as
  \<open>base64(...)\<close>; this is the standard alphabet with \<open>=\<close> padding, three bytes to four
  characters.  Decoding rejects text that is not such an encoding, as \<open>atob\<close> does with
  an \<open>InvalidCharacterError\<close>.
\<close>

definition b64_char :: "nat \<Rightarrow> char" where
  "b64_char n =
     (if n < 26 then char_of (65 + n)
      else if n < 52 then char_of (71 + n)
      else if n < 62 then char_of (n - 4)
      else if n = 62 then CHR ''+'' else CHR ''/'')"

definition b64_index :: "char \<Rightarrow> nat option" where
  "b64_index c =
     (let n = (of_char c :: nat) in
      if 65 \<le> n \<and> n \<le> 90 then Some (n - 65)
      else if 97 \<le> n \<and> n \<le> 122 then Some (n - 71)
      else if 48 \<le> n \<and> n \<le> 57 then Some (n + 4)
      else if n = 43 then Some 62
      else if n = 47 then Some 63
      else None)"

definition sextet :: "nat \<Rightarrow> nat \<Rightarrow> char" where
  "sextet n i = b64_char (n div 64 ^ i mod 64)"

definition group24 :: "8 word \<Rightarrow> 8 word \<Rightarrow> 8 word \<Rightarrow> nat" where
  "group24 a b c = unat a * 65536 + unat b * 256 + unat c"

fun encodeBase64 :: "bytes \<Rightarrow> string" where
  "encodeBase64 (a # b # c # rest) =
     (let n = group24 a b c in [sextet n 3, sextet n 2, sextet n 1, sextet n 0])
     @ encodeBase64 rest"
| "encodeBase64 [a, b] =
     (let n = group24 a b 0 in [sextet n 3, sextet n 2, sextet n 1, CHR ''=''])"
| "encodeBase64 [a] =
     (let n = group24 a 0 0 in [sextet n 3, sextet n 2, CHR ''='', CHR ''=''])"
| "encodeBase64 [] = []"

definition quad :: "char \<Rightarrow> char \<Rightarrow> char \<Rightarrow> char \<Rightarrow> nat option" where
  "quad w x y z =
     (case (b64_index w, b64_index x, b64_index y, b64_index z) of
        (Some p, Some q, Some r, Some s) \<Rightarrow> Some (((p * 64 + q) * 64 + r) * 64 + s)
      | _ \<Rightarrow> None)"

definition octets :: "nat \<Rightarrow> bytes" where
  "octets n = [of_nat (n div 65536), of_nat (n div 256), of_nat n]"

definition final_quad :: "char \<Rightarrow> char \<Rightarrow> char \<Rightarrow> char \<Rightarrow> error + bytes" where
  "final_quad w x y z =
     (if y = CHR ''='' \<and> z = CHR ''='' then
        (case quad w x (CHR ''A'') (CHR ''A'') of
           None \<Rightarrow> Inl (DOMException ''InvalidCharacterError'' [])
         | Some n \<Rightarrow> Inr (take 1 (octets n)))
      else if z = CHR ''='' then
        (case quad w x y (CHR ''A'') of
           None \<Rightarrow> Inl (DOMException ''InvalidCharacterError'' [])
         | Some n \<Rightarrow> Inr (take 2 (octets n)))
      else
        (case quad w x y z of
           None \<Rightarrow> Inl (DOMException ''InvalidCharacterError'' [])
         | Some n \<Rightarrow> Inr (octets n)))"

fun decodeBase64 :: "string \<Rightarrow> error + bytes" where
  "decodeBase64 [] = Inr []"
| "decodeBase64 (w # x # y # z # rest) =
     (if rest = [] then final_quad w x y z
      else case quad w x y z of
             None \<Rightarrow> Inl (DOMException ''InvalidCharacterError'' [])
           | Some n \<Rightarrow>
               (case decodeBase64 rest of
                  Inl e \<Rightarrow> Inl e
                | Inr more \<Rightarrow> Inr (octets n @ more)))"
| "decodeBase64 _ = Inl (DOMException ''InvalidCharacterError'' [])"

subsection \<open>The envelope cipher\<close>

text \<open>
  A \<open>CryptoKey\<close> is opaque to the code; the model keeps the raw key bytes, which decide
  what encrypting and decrypting under the key do.  Extractability and usages are not
  modelled.
\<close>

datatype crypto_key = CryptoKey (raw: bytes)

text \<open>
  The block cipher behind the platform's AES-GCM is not code of this repository.  It
  enters as two parameters: the counter-mode keystream byte at a position, and the
  authentication tag of a ciphertext, both under a key and a nonce.
\<close>

record aes_gcm =
  gcm_keystream :: "bytes \<Rightarrow> bytes \<Rightarrow> nat \<Rightarrow> 8 word"
  gcm_tag :: "bytes \<Rightarrow> bytes \<Rightarrow> bytes \<Rightarrow> bytes"

record sealed =
  sl_nonce :: bytes
  sl_ciphertext :: bytes

record envelope =
  env_iv :: string
  env_data :: string

definition ctr_xor :: "aes_gcm \<Rightarrow> bytes \<Rightarrow> bytes \<Rightarrow> bytes \<Rightarrow> bytes" where
  "ctr_xor g k nonce bs = map2 (\<lambda>i b. b XOR gcm_keystream g k nonce i) [0..<length bs] bs"

definition tag16 :: "aes_gcm \<Rightarrow> bytes \<Rightarrow> bytes \<Rightarrow> bytes \<Rightarrow> bytes" where
  "tag16 g k nonce c = take 16 (gcm_tag g k nonce c @ replicate 16 0)"

text \<open>
  Modelled from the spec: the Envelope Cipher, \<open>encrypt(key, plaintextBytes) ->
  {nonce, ciphertext}\<close> and \<open>decrypt(key, ciphertext, nonce) -> plaintextBytes |
  fails(IntegrityError)\<close>, whose source (\<open>lib/crypto\<close>) is not part of the sources at
  hand.  The nonce is the fresh random value the call draws, an argument here.  The
  ciphertext is the plaintext under the keystream followed by the 16-byte tag, the layout
  of the \<open>AES-GCM\<close> algorithm for which \<open>webauthn.ts\<close> imports its wrapping key; decrypting
  fails with \<open>IntegrityError\<close> when the tag does not verify.
\<close>

definition envelope_encrypt :: "aes_gcm \<Rightarrow> bytes \<Rightarrow> bytes \<Rightarrow> bytes \<Rightarrow> sealed" where
  "envelope_encrypt g nonce k plaintextBytes =
     (let c = ctr_xor g k nonce plaintextBytes in
      \<lparr>sl_nonce = nonce, sl_ciphertext = c @ tag16 g k nonce c\<rparr>)"

definition envelope_decrypt :: "aes_gcm \<Rightarrow> bytes \<Rightarrow> bytes \<Rightarrow> bytes \<Rightarrow> error + bytes" where
  "envelope_decrypt g k ciphertext nonce =
     (if length ciphertext < 16 then Inl IntegrityError
      else let c = take (length ciphertext - 16) ciphertext;
               t = drop (length ciphertext - 16) ciphertext in
        if tag16 g k nonce c = t then Inr (ctr_xor g k nonce c) else Inl IntegrityError)"

definition utf8_bytes :: "string \<Rightarrow> bytes" where
  "utf8_bytes s = map (\<lambda>c. of_nat (of_char c)) s"

definition utf8_text :: "bytes \<Rightarrow> string" where
  "utf8_text bs = map (\<lambda>b. char_of (unat b)) bs"

text \<open>
  Modelled from the spec: \<open>encrypt\<close> and \<open>decrypt\<close> as the crypto context exposes them,
  \<open>encrypt: (key, plaintext: string) => Promise<{iv: string; data: string}>\<close> and
  \<open>decrypt: (key, ciphertext: string, iv: string) => Promise<string>\<close>; their bodies are
  in \<open>lib/crypto\<close>.  They are the envelope cipher on the bytes of the text, with nonce
  and ciphertext carried as \<open>base64(nonce)\<close> and \<open>base64(ciphertext)\<close>.
\<close>

definition encrypt :: "aes_gcm \<Rightarrow> bytes \<Rightarrow> crypto_key \<Rightarrow> string \<Rightarrow> envelope" where
  "encrypt g nonce key plaintext =
     (let s = envelope_encrypt g nonce (raw key) (utf8_bytes plaintext) in
      \<lparr>env_iv = encodeBase64 (sl_nonce s), env_data = encodeBase64 (sl_ciphertext s)\<rparr>)"

definition decrypt :: "aes_gcm \<Rightarrow> crypto_key \<Rightarrow> string \<Rightarrow> string \<Rightarrow> error + string" where
  "decrypt g key ciphertext iv =
     (case decodeBase64 iv of
        Inl e \<Rightarrow> Inl e
      | Inr nonce \<Rightarrow>
          (case decodeBase64 ciphertext of
             Inl e \<Rightarrow> Inl e
           | Inr ct \<Rightarrow>
               (case envelope_decrypt g (raw key) ct nonce of
                  Inl e \<Rightarrow> Inl e
                | Inr p \<Rightarrow> Inr (utf8_text p))))"

text \<open>
  Modelled from the spec: \<open>exportKey\<close> and \<open>importKey\<close> of \<open>lib/crypto\<close>: the
  \<open>exportedMasterKeyBytes\<close> as a Base64 string, and those bytes imported "back into a
  usable MasterKey handle".
\<close>

definition exportKey :: "crypto_key \<Rightarrow> string" where
  "exportKey key = encodeBase64 (raw key)"

definition importKey :: "string \<Rightarrow> error + crypto_key" where
  "importKey keyString =
     (case decodeBase64 keyString of Inl e \<Rightarrow> Inl e | Inr bs \<Rightarrow> Inr (CryptoKey bs))"

subsection \<open>What \<open>webauthn.ts\<close> imports\<close>

text \<open>
  \<open>import { encodeBase64, decodeBase64, importKey, exportKey, encrypt, decrypt } from
  './crypto'\<close>.  The functions of \<open>webauthn.ts\<close> take the six as a parameter, so that what
  they do on failure is stated for every behaviour of the module; \<open>crypto\<close> is the
  module as modelled above, with the nonce its \<open>encrypt\<close> draws.
\<close>

record 'k crypto_lib =
  lib_encodeBase64 :: "bytes \<Rightarrow> string"
  lib_decodeBase64 :: "string \<Rightarrow> error + bytes"
  lib_importKey :: "string \<Rightarrow> error + 'k"
  lib_exportKey :: "'k \<Rightarrow> error + string"
  lib_encrypt :: "'k \<Rightarrow> string \<Rightarrow> error + envelope"
  lib_decrypt :: "'k \<Rightarrow> string \<Rightarrow> string \<Rightarrow> error + string"

definition crypto :: "aes_gcm \<Rightarrow> bytes \<Rightarrow> crypto_key crypto_lib" where
  "crypto g nonce =
     \<lparr>lib_encodeBase64 = encodeBase64,
      lib_decodeBase64 = decodeBase64,
      lib_importKey = importKey,
      lib_exportKey = (\<lambda>key. Inr (exportKey key)),
      lib_encrypt = (\<lambda>key plaintext. Inr (encrypt g nonce key plaintext)),
      lib_decrypt = decrypt g\<rparr>"

section \<open>The platform authenticator and \<open>webauthn.ts\<close>\<close>

subsection \<open>The platform\<close>

text \<open>
  The options objects that \<open>registerBiometric\<close> and \<open>unlockBiometric\<close> build, field by
  field.  \<open>co_prf_eval_first\<close> and \<open>ao_prf_eval_first\<close> are
  \<open>extensions.prf.eval.first\<close>; \<open>ao_allowCredentials\<close> lists the \<open>id\<close> of each allowed
  credential (their \<open>type\<close> is always \<open>'public-key'\<close>).
\<close>

record creation_options =
  co_challenge :: bytes
  co_rp_name :: string
  co_rp_id :: string
  co_user_id :: bytes
  co_user_name :: string
  co_user_displayName :: string
  co_pubKeyCredParams :: "int list"
  co_authenticatorAttachment :: string
  co_userVerification :: string
  co_residentKey :: string
  co_requireResidentKey :: bool
  co_timeout :: nat
  co_prf_eval_first :: bytes

record assertion_options =
  ao_challenge :: bytes
  ao_rpId :: string
  ao_allowCredentials :: "bytes list"
  ao_userVerification :: string
  ao_prf_eval_first :: bytes

text \<open>
  What the code reads from a created credential and from an assertion:
  \<open>credential.rawId\<close>, and \<open>getClientExtensionResults()?.prf?.results?.first\<close>, which is
  \<open>None\<close> when any link of the chain is missing.
\<close>

record credential =
  cred_rawId :: bytes
  cred_prf_first :: "bytes option"

record assertion =
  asr_prf_first :: "bytes option"

text \<open>
  The browser: the constant \<open>IS_SUPPORTED\<close>, \<open>window.location.hostname\<close>,
  \<open>navigator.credentials.create\<close> and \<open>.get\<close> (each rejects, resolves to \<open>null\<close>, or
  resolves to an object), and \<open>window.crypto.subtle.importKey('raw', _, 'AES-GCM', false,
  ['encrypt', 'decrypt'])\<close>.
\<close>

record 'k platform =
  IS_SUPPORTED :: bool
  hostname :: string
  credentials_create :: "creation_options \<Rightarrow> error + credential option"
  credentials_get :: "assertion_options \<Rightarrow> error + assertion option"
  subtle_importKey_raw :: "bytes \<Rightarrow> error + 'k"

text \<open>
  The calls a handler makes to its collaborators, in order: the authenticator, the
  crypto module where a claim counts its calls, the storage client, and the browser's
  dialogs and console.
\<close>

record profile_row =
  pr_id :: js_string
  pr_salt :: string
  pr_key_check_value :: string
  pr_key_check_iv :: string
  pr_full_name :: "string option"
  pr_avatar_url :: "string option"

datatype 'k event =
    CredentialsCreate creation_options
  | CredentialsGet assertion_options
  | GenerateSalt
  | DeriveKey js_string string
  | Encrypt 'k string
  | ProfilesInsert profile_row
  | SignOut
  | Alert string
  | ConsoleError
  | ConsoleWarn nat

fun is_authenticator_call :: "'k event \<Rightarrow> bool" where
  "is_authenticator_call (CredentialsCreate _) = True"
| "is_authenticator_call (CredentialsGet _) = True"
| "is_authenticator_call _ = False"

subsection \<open>\<open>registerBiometric\<close>\<close>

record BiometricData =
  bd_credentialId :: string
  bd_salt :: string
  bd_encryptedKey :: string
  bd_iv :: string

text \<open>
  \<open>const strToBin = (str: string) => Uint8Array.from(str, c => c.charCodeAt(0))\<close>.
  Iterating a string goes by code point: a high surrogate followed by a low one is a
  single element \<open>c\<close>, and \<open>c.charCodeAt(0)\<close> is its first code unit.  The typed array
  keeps the low eight bits of each number.
\<close>

definition is_high_surrogate :: "16 word \<Rightarrow> bool" where
  "is_high_surrogate c \<longleftrightarrow> 0xD800 \<le> c \<and> c \<le> 0xDBFF"

definition is_low_surrogate :: "16 word \<Rightarrow> bool" where
  "is_low_surrogate c \<longleftrightarrow> 0xDC00 \<le> c \<and> c \<le> 0xDFFF"

fun strToBin :: "js_string \<Rightarrow> bytes" where
  "strToBin (c # d # rest) =
     (if is_high_surrogate c \<and> is_low_surrogate d
      then ucast c # strToBin rest
      else ucast c # strToBin (d # rest))"
| "strToBin [c] = [ucast c]"
| "strToBin [] = []"

definition creationOptions :: "'k platform \<Rightarrow> bytes \<Rightarrow> bytes \<Rightarrow> js_string \<Rightarrow> creation_options" where
  "creationOptions pf saltBuffer challenge userId =
     \<lparr>co_challenge = challenge,
      co_rp_name = ''Diary App'',
      co_rp_id = hostname pf,
      co_user_id = strToBin userId,
      co_user_name = ''diary-user'',
      co_user_displayName = ''Diary Owner'',
      co_pubKeyCredParams = [- 7, - 257],
      co_authenticatorAttachment = ''platform'',
      co_userVerification = ''required'',
      co_residentKey = ''required'',
      co_requireResidentKey = True,
      co_timeout = 60000,
      co_prf_eval_first = saltBuffer\<rparr>"

definition assertionOptions :: "'k platform \<Rightarrow> bytes \<Rightarrow> bytes \<Rightarrow> bytes \<Rightarrow> assertion_options" where
  "assertionOptions pf challenge credentialId saltBuffer =
     \<lparr>ao_challenge = challenge,
      ao_rpId = hostname pf,
      ao_allowCredentials = [credentialId],
      ao_userVerification = ''required'',
      ao_prf_eval_first = saltBuffer\<rparr>"

text \<open>\<open>assertion?.getClientExtensionResults()\<close> followed by \<open>?.prf?.results?.first\<close>.\<close>

definition assertion_prf :: "assertion option \<Rightarrow> bytes option" where
  "assertion_prf a = (case a of None \<Rightarrow> None | Some r \<Rightarrow> asr_prf_first r)"

text \<open>
  Steps 4 to 6 of \<open>registerBiometric\<close> and its \<open>return\<close>: import the PRF output as the
  wrapping key, export the master key, encrypt it under the wrapping key, build the
  record.
\<close>

definition wrapMasterKey ::
  "'k platform \<Rightarrow> 'k crypto_lib \<Rightarrow> bytes \<Rightarrow> 'k \<Rightarrow> string \<Rightarrow> string \<Rightarrow> error + BiometricData" where
  "wrapMasterKey pf lib prfKeyMaterial masterKey credentialId saltBase64 =
     (case subtle_importKey_raw pf prfKeyMaterial of
        Inl e \<Rightarrow> Inl e
      | Inr wrappingKey \<Rightarrow>
          (case lib_exportKey lib masterKey of
             Inl e \<Rightarrow> Inl e
           | Inr masterKeyString \<Rightarrow>
               (case lib_encrypt lib wrappingKey masterKeyString of
                  Inl e \<Rightarrow> Inl e
                | Inr enc \<Rightarrow>
                    Inr \<lparr>bd_credentialId = credentialId,
                         bd_salt = saltBase64,
                         bd_encryptedKey = env_data enc,
                         bd_iv = env_iv enc\<rparr>)))"

text \<open>
  \<open>registerBiometric(masterKey, userId)\<close>.  The three random values it draws with
  \<open>getRandomValues\<close> are arguments: the salt, the challenge of the creation and the
  challenge of the assertion of step B.  The result pairs the calls made to
  \<open>navigator.credentials\<close> with the value the promise settles to.
\<close>

definition registerBiometric ::
  "'k platform \<Rightarrow> 'k crypto_lib \<Rightarrow> bytes \<Rightarrow> bytes \<Rightarrow> bytes \<Rightarrow> 'k \<Rightarrow> js_string
     \<Rightarrow> 'k event list \<times> (error + BiometricData)" where
  "registerBiometric pf lib saltBuffer challenge challengeB masterKey userId =
     (if \<not> IS_SUPPORTED pf then ([], Inl (Error ''WebAuthn not supported''))
      else
        let saltBase64 = lib_encodeBase64 lib saltBuffer;
            created = CredentialsCreate (creationOptions pf saltBuffer challenge userId)
        in
        case credentials_create pf (creationOptions pf saltBuffer challenge userId) of
          Inl e \<Rightarrow> ([created], Inl e)
        | Inr None \<Rightarrow> ([created], Inl (Error ''Failed to create credential''))
        | Inr (Some credential) \<Rightarrow>
            let credentialId = lib_encodeBase64 lib (cred_rawId credential);
                (calls, prfKeyMaterial) =
                  (case cred_prf_first credential of
                     Some first \<Rightarrow> ([created], Inr (Some first))
                   | None \<Rightarrow>
                       let opts = assertionOptions pf challengeB (cred_rawId credential) saltBuffer
                       in (case credentials_get pf opts of
                             Inl e \<Rightarrow> ([created, CredentialsGet opts], Inl e)
                           | Inr a \<Rightarrow> ([created, CredentialsGet opts], Inr (assertion_prf a))))
            in
            (case prfKeyMaterial of
               Inl e \<Rightarrow> (calls, Inl e)
             | Inr None \<Rightarrow>
                 (calls,
                  Inl (Error (''Authenticator does not support PRF extension. '' @
                              ''Please ensure your device and browser support WebAuthn PRF.'')))
             | Inr (Some material) \<Rightarrow>
                 (calls, wrapMasterKey pf lib material masterKey credentialId saltBase64)))"

subsection \<open>\<open>unlockBiometric\<close>\<close>

text \<open>
  \<open>unlockBiometric(data)\<close>, with the challenge it draws as an argument.  Nothing in the
  body catches: whatever a step rejects with is what the call rejects with.
\<close>

definition unlockBiometric ::
  "'k platform \<Rightarrow> 'k crypto_lib \<Rightarrow> bytes \<Rightarrow> BiometricData \<Rightarrow> 'k event list \<times> (error + 'k)" where
  "unlockBiometric pf lib challenge data =
     (case lib_decodeBase64 lib (bd_salt data) of
        Inl e \<Rightarrow> ([], Inl e)
      | Inr saltBuffer \<Rightarrow>
          (case lib_decodeBase64 lib (bd_credentialId data) of
             Inl e \<Rightarrow> ([], Inl e)
           | Inr credentialIdBuffer \<Rightarrow>
               let opts = assertionOptions pf challenge credentialIdBuffer saltBuffer in
               (case credentials_get pf opts of
                  Inl e \<Rightarrow> ([CredentialsGet opts], Inl e)
                | Inr None \<Rightarrow> ([CredentialsGet opts], Inl (Error ''Authentication failed''))
                | Inr (Some a) \<Rightarrow>
                    (case asr_prf_first a of
                       None \<Rightarrow>
                         ([CredentialsGet opts],
                          Inl (Error ''Could not retrieve PRF key from authenticator.''))
                     | Some first \<Rightarrow>
                         (case subtle_importKey_raw pf first of
                            Inl e \<Rightarrow> ([CredentialsGet opts], Inl e)
                          | Inr wrappingKey \<Rightarrow>
                              (case lib_decrypt lib wrappingKey (bd_encryptedKey data) (bd_iv data) of
                                 Inl e \<Rightarrow> ([CredentialsGet opts], Inl e)
                               | Inr masterKeyString \<Rightarrow>
                                   ([CredentialsGet opts], lib_importKey lib masterKeyString)))))))"

text \<open>
  A stable authenticator: whenever it returns a PRF output, at creation or on an
  assertion for one allowed credential, the output is the fixed value \<open>F\<close> of that
  credential and the evaluation input, whatever the challenge.
\<close>

definition prf_stable :: "'k platform \<Rightarrow> (bytes \<Rightarrow> bytes \<Rightarrow> bytes) \<Rightarrow> bool" where
  "prf_stable pf F \<longleftrightarrow>
     (\<forall>opts c m. credentials_create pf opts = Inr (Some c) \<and> cred_prf_first c = Some m
        \<longrightarrow> m = F (cred_rawId c) (co_prf_eval_first opts)) \<and>
     (\<forall>opts a m cid. credentials_get pf opts = Inr (Some a) \<and> asr_prf_first a = Some m
        \<and> ao_allowCredentials opts = [cid]
        \<longrightarrow> m = F cid (ao_prf_eval_first opts))"

section \<open>First-time setup (\<open>InitializeEncryption\<close>)\<close>

text \<open>
  \<open>import { generateSalt, deriveKey, encrypt, KEY_CHECK_STRING } from '../lib/crypto'\<close>
  and the storage client's \<open>from('profiles').insert(row)\<close>, of which the handler reads the
  \<open>error\<close> field.  \<open>generateSalt\<close> is the salt this call returns.
\<close>

record 'k setup_imports =
  KEY_CHECK_STRING :: string
  generateSalt :: string
  deriveKey :: "js_string \<Rightarrow> string \<Rightarrow> error + 'k"
  su_encrypt :: "'k \<Rightarrow> string \<Rightarrow> error + envelope"
  profiles_insert :: "profile_row \<Rightarrow> error option"

text \<open>\<open>session.user\<close>: its \<open>id\<close> and the two entries of \<open>user_metadata\<close> the handler
  reads.\<close>

record session_user =
  su_id :: js_string
  su_full_name :: "string option"
  su_avatar_url :: "string option"

text \<open>The component's state (\<open>password\<close>, \<open>loading\<close>, \<open>error\<close>), and what one run of the
  handler leaves: the state, the calls made, and the key passed to \<open>onSuccess\<close> if it was
  called.\<close>

record setup_form =
  sf_password :: js_string
  sf_loading :: bool
  sf_error :: "string option"

record 'k submit_outcome =
  so_form :: setup_form
  so_events :: "'k event list"
  so_onSuccess :: "'k option"

text \<open>
  The \<open>catch\<close> and \<open>finally\<close> blocks: \<open>setError(err.error_description || err.message ||
  "An unknown error occurred during setup.")\<close>, \<open>console.error\<close>, \<open>setLoading(false)\<close>.
  No error of the model has an \<open>error_description\<close>; an empty message is falsy.
\<close>

definition setup_failed :: "'k event list \<Rightarrow> error \<Rightarrow> setup_form \<Rightarrow> 'k submit_outcome" where
  "setup_failed calls err form =
     \<lparr>so_form = form\<lparr>sf_loading := False,
                        sf_error := Some (if message err = []
                                          then ''An unknown error occurred during setup.''
                                          else message err)\<rparr>,
      so_events = calls @ [ConsoleError],
      so_onSuccess = None\<rparr>"

definition handleSubmit ::
  "'k setup_imports \<Rightarrow> session_user option \<Rightarrow> setup_form \<Rightarrow> 'k submit_outcome" where
  "handleSubmit imp user form =
     (if length (sf_password form) < 6 then
        \<lparr>so_form = form\<lparr>sf_error := Some ''Password must be at least 6 characters long.''\<rparr>,
         so_events = [],
         so_onSuccess = None\<rparr>
      else
        case user of
          None \<Rightarrow> setup_failed [] (Error ''User not available.'') form
        | Some u \<Rightarrow>
            let salt = generateSalt imp;
                derived = DeriveKey (sf_password form) salt
            in
            (case deriveKey imp (sf_password form) salt of
               Inl e \<Rightarrow> setup_failed [GenerateSalt, derived] e form
             | Inr k \<Rightarrow>
                 (case su_encrypt imp k (KEY_CHECK_STRING imp) of
                    Inl e \<Rightarrow>
                      setup_failed [GenerateSalt, derived, Encrypt k (KEY_CHECK_STRING imp)] e form
                  | Inr enc \<Rightarrow>
                      let row = \<lparr>pr_id = su_id u,
                                 pr_salt = salt,
                                 pr_key_check_value = env_data enc,
                                 pr_key_check_iv = env_iv enc,
                                 pr_full_name = su_full_name u,
                                 pr_avatar_url = su_avatar_url u\<rparr>;
                          calls = [GenerateSalt, derived, Encrypt k (KEY_CHECK_STRING imp),
                                   ProfilesInsert row]
                      in
                      (case profiles_insert imp row of
                         Some insertError \<Rightarrow> setup_failed calls insertError form
                       | None \<Rightarrow>
                           \<lparr>so_form = form\<lparr>sf_loading := False, sf_error := None\<rparr>,
                            so_events = calls,
                            so_onSuccess = Some k\<rparr>))))"

section \<open>The key lifecycle in \<open>DiaryApp\<close>\<close>

datatype KeyStatus = Checking | Needed | ReAuth | Ready

text \<open>
  The four values are \<open>'checking'\<close>, \<open>'needed'\<close>, \<open>'reauth'\<close> and \<open>'ready'\<close>.
  The part of the state the lifecycle lives in: \<open>key\<close> of the crypto context
  (\<open>useState<CryptoKey | null>(null)\<close>) and \<open>keyStatus\<close> of the component
  (\<open>useState<KeyStatus>('checking')\<close>).  \<open>app_key_writes\<close> records the argument of every
  call of \<open>setKey\<close>, oldest first; \<open>app_pending\<close> counts the calls of \<open>checkKeyStatus\<close>
  that are suspended at their \<open>await\<close>; \<open>app_events\<close> holds the dialogs and the sign-out.
\<close>

record 'k diary_app =
  app_key :: "'k option"
  app_keyStatus :: KeyStatus
  app_key_writes :: "'k option list"
  app_pending :: nat
  app_events :: "'k event list"

definition session_start :: "'k diary_app" where
  "session_start =
     \<lparr>app_key = None, app_keyStatus = Checking, app_key_writes = [], app_pending = 0,
      app_events = []\<rparr>"

text \<open>
  \<open>checkKeyStatus\<close> is an \<open>async\<close> function with one \<open>await\<close>, so it runs in two parts.
  Up to the \<open>await\<close>: \<open>if (key) { setKeyStatus('ready'); return; }\<close>, with the \<open>key\<close> of
  the render whose effect called it, and otherwise the lookup
  \<open>from('profiles').select('id').eq('id', session.user.id).maybeSingle()\<close> is sent.
\<close>

definition checkKeyStatus :: "'k diary_app \<Rightarrow> 'k diary_app" where
  "checkKeyStatus s =
     (if app_key s \<noteq> None then s\<lparr>app_keyStatus := Ready\<rparr>
      else s\<lparr>app_pending := Suc (app_pending s)\<rparr>)"

text \<open>
  After the \<open>await\<close>, when the lookup has given an error, \<open>null\<close>, or the row: the
  continuation sets \<open>keyStatus\<close> from the answer alone.  It does not read \<open>key\<close> again, and
  the effect has no cleanup that would cancel it.
\<close>

definition checkKeyStatus_resume :: "error + js_string option \<Rightarrow> 'k diary_app \<Rightarrow> 'k diary_app" where
  "checkKeyStatus_resume lookup s =
     (case lookup of
        Inl e \<Rightarrow>
          s\<lparr>app_pending := app_pending s - 1,
            app_events := app_events s @
              [ConsoleError,
               Alert (''There was a problem accessing your profile. '' @
                      ''Please log out and log in again.''),
               SignOut]\<rparr>
      | Inr None \<Rightarrow> s\<lparr>app_pending := app_pending s - 1, app_keyStatus := Needed\<rparr>
      | Inr (Some profile) \<Rightarrow> s\<lparr>app_pending := app_pending s - 1, app_keyStatus := ReAuth\<rparr>)"

definition handleKeyReady :: "'k \<Rightarrow> 'k diary_app \<Rightarrow> 'k diary_app" where
  "handleKeyReady newKey s =
     s\<lparr>app_key := Some newKey,
       app_key_writes := app_key_writes s @ [Some newKey],
       app_keyStatus := Ready\<rparr>"

text \<open>
  What can happen to the component.  \<open>EffectRuns\<close>: the effect calls \<open>checkKeyStatus\<close>, on
  mount (twice under React's strict mode) and whenever \<open>key\<close> or \<open>session.user.id\<close> has
  changed.  \<open>LookupAnswers\<close>: a suspended call resumes with the answer of its lookup.
  \<open>renderContent\<close> mounts \<open>InitializeEncryption\<close> only in \<open>needed\<close> and \<open>PasswordPrompt\<close> only
  in \<open>reauth\<close>, each with \<open>onSuccess={handleKeyReady}\<close>; the header, the entry views and the
  fetch effect exist only in \<open>ready\<close>.  None of the handlers behind \<open>OtherHandler\<close>
  (\<open>fetchEntries\<close>, \<open>fetchProfile\<close>, \<open>handleSaveEntry\<close>, \<open>handleDeleteEntry\<close>,
  \<open>handleUpdateProfile\<close>, \<open>handleAvatarUpload\<close>, \<open>handleSignOut\<close>, \<open>handleGoHome\<close>,
  \<open>handleToggleView\<close>, \<open>handleDateSelect\<close>) calls \<open>setKey\<close> or \<open>setKeyStatus\<close>.
\<close>

datatype 'k action =
    EffectRuns
  | LookupAnswers "error + js_string option"
  | SetupSuccess 'k
  | PasswordSuccess 'k
  | OtherHandler

fun enabled :: "'k action \<Rightarrow> 'k diary_app \<Rightarrow> bool" where
  "enabled EffectRuns s = True"
| "enabled (LookupAnswers lookup) s = (0 < app_pending s)"
| "enabled (SetupSuccess k) s = (app_keyStatus s = Needed)"
| "enabled (PasswordSuccess k) s = (app_keyStatus s = ReAuth)"
| "enabled OtherHandler s = (app_keyStatus s = Ready)"

fun perform :: "'k action \<Rightarrow> 'k diary_app \<Rightarrow> 'k diary_app" where
  "perform EffectRuns s = checkKeyStatus s"
| "perform (LookupAnswers lookup) s = checkKeyStatus_resume lookup s"
| "perform (SetupSuccess k) s = handleKeyReady k s"
| "perform (PasswordSuccess k) s = handleKeyReady k s"
| "perform OtherHandler s = s"

fun run :: "'k action list \<Rightarrow> 'k diary_app \<Rightarrow> 'k diary_app option" where
  "run [] s = Some s"
| "run (a # rest) s = (if enabled a s then run rest (perform a s) else None)"

section \<open>Loading the entries (\<open>fetchEntries\<close>)\<close>

text \<open>A row of \<open>diaries\<close>, and an entry of the list: the row (\<open>...entry\<close>) with the
  \<open>title\<close> and \<open>content\<close> that \<open>JSON.parse\<close> gave, of whatever kind \<open>'v\<close> they are.\<close>

record diary_row =
  dr_id :: string
  dr_owner_id :: string
  dr_encrypted_entry :: string
  dr_iv :: string
  dr_created_at :: string

record 'v diary_entry =
  de_row :: diary_row
  de_title :: 'v
  de_content :: 'v

record 'v entries_state =
  es_entries :: "'v diary_entry list"
  es_loading :: bool

text \<open>
  The callback mapped over the rows: \<open>decrypt(key, entry.encrypted_entry, entry.iv)\<close>, then
  \<open>const { title, content } = JSON.parse(decryptedContent)\<close>.  \<open>decrypt\<close> is the one of
  the crypto context; the parser with the destructuring is the platform's.
\<close>

definition decryptEntry ::
  "('k \<Rightarrow> string \<Rightarrow> string \<Rightarrow> error + string) \<Rightarrow> (string \<Rightarrow> error + 'v \<times> 'v) \<Rightarrow> 'k \<Rightarrow> diary_row
     \<Rightarrow> error + 'v diary_entry" where
  "decryptEntry dec parse k entry =
     (case dec k (dr_encrypted_entry entry) (dr_iv entry) of
        Inl e \<Rightarrow> Inl e
      | Inr decryptedContent \<Rightarrow>
          (case parse decryptedContent of
             Inl e \<Rightarrow> Inl e
           | Inr (t, c) \<Rightarrow> Inr \<lparr>de_row = entry, de_title = t, de_content = c\<rparr>))"

text \<open>
  \<open>fetchEntries\<close>.  \<open>fetched\<close> is the result of the \<open>select('*')\<close> on \<open>diaries\<close>: an error, or
  \<open>data\<close> (which may be \<open>null\<close>).  \<open>Promise.allSettled\<close> keeps one result per row, fulfilled
  (\<open>Inr\<close>) or rejected (\<open>Inl\<close>); \<open>fulfilled\<close> is \<open>result.status === 'fulfilled'\<close> and \<open>projr\<close>
  is \<open>result.value\<close>.
\<close>

fun fulfilled :: "error + 'a \<Rightarrow> bool" where
  "fulfilled (Inr v) = True"
| "fulfilled (Inl e) = False"

definition fetchEntries ::
  "'k option \<Rightarrow> ('k \<Rightarrow> string \<Rightarrow> string \<Rightarrow> error + string) \<Rightarrow> (string \<Rightarrow> error + 'v \<times> 'v)
     \<Rightarrow> error + diary_row list option \<Rightarrow> 'v entries_state \<Rightarrow> 'v entries_state \<times> 'k event list" where
  "fetchEntries k dec parse fetched st =
     (case k of
        None \<Rightarrow> (st, [])
      | Some theKey \<Rightarrow>
          (case fetched of
             Inl e \<Rightarrow>
               (st\<lparr>es_loading := False\<rparr>,
                [ConsoleError,
                 Alert ''Could not fetch diary entries. Please check your network connection.''])
           | Inr data \<Rightarrow>
               let decryptionResults =
                     map (decryptEntry dec parse theKey) (case data of None \<Rightarrow> [] | Some rows \<Rightarrow> rows);
                   successfullyDecryptedEntries = map projr (filter fulfilled decryptionResults);
                   failedCount = length decryptionResults - length successfullyDecryptedEntries
               in
               (st\<lparr>es_entries := successfullyDecryptedEntries, es_loading := False\<rparr>,
                if failedCount > 0 then [ConsoleWarn failedCount] else [])))"

section \<open>Vocabulary of the theorems and simulated collaborators\<close>

text \<open>
  The value of \<open>prfKeyMaterial\<close> after step A or step B of \<open>registerBiometric\<close>: the
  output in the creation response if there is one, otherwise the output of the one
  assertion.
\<close>

definition prf_obtained ::
  "'k platform \<Rightarrow> bytes \<Rightarrow> bytes \<Rightarrow> credential \<Rightarrow> bytes \<Rightarrow> bool" where
  "prf_obtained pf saltBuffer challengeB credential material \<longleftrightarrow>
     (case cred_prf_first credential of
        Some first \<Rightarrow> material = first
      | None \<Rightarrow>
          (case credentials_get pf (assertionOptions pf challengeB (cred_rawId credential) saltBuffer) of
             Inl e \<Rightarrow> False
           | Inr a \<Rightarrow> assertion_prf a = Some material))"

text \<open>Every step of a registration succeeded, and \<open>data\<close> is the record built from what
  the steps returned.\<close>

definition registration_succeeds ::
  "'k platform \<Rightarrow> 'k crypto_lib \<Rightarrow> bytes \<Rightarrow> bytes \<Rightarrow> bytes \<Rightarrow> 'k \<Rightarrow> js_string \<Rightarrow> BiometricData
     \<Rightarrow> bool" where
  "registration_succeeds pf lib saltBuffer challenge challengeB masterKey userId data \<longleftrightarrow>
     IS_SUPPORTED pf \<and>
     (\<exists>credential material wrappingKey masterKeyString enc.
        credentials_create pf (creationOptions pf saltBuffer challenge userId) = Inr (Some credential) \<and>
        prf_obtained pf saltBuffer challengeB credential material \<and>
        subtle_importKey_raw pf material = Inr wrappingKey \<and>
        lib_exportKey lib masterKey = Inr masterKeyString \<and>
        lib_encrypt lib wrappingKey masterKeyString = Inr enc \<and>
        data = \<lparr>bd_credentialId = lib_encodeBase64 lib (cred_rawId credential),
                 bd_salt = lib_encodeBase64 lib saltBuffer,
                 bd_encryptedKey = env_data enc,
                 bd_iv = env_iv enc\<rparr>)"

text \<open>
  Stand-ins for the platform, on which the theorems are run: a keystream and a tag made of
  exclusive-ors, an authenticator that owns one credential and answers with a fixed
  function of credential and salt (at creation, on assertion, or never), and one whose
  prompts are always cancelled.
\<close>

definition toy_gcm :: aes_gcm where
  "toy_gcm =
     \<lparr>gcm_keystream = (\<lambda>k nonce i. foldr (XOR) (k @ nonce) (of_nat i)),
      gcm_tag = (\<lambda>k nonce c. [foldr (XOR) (k @ nonce) 0, foldr (XOR) c 0])\<rparr>"

definition sim_prf :: "bytes \<Rightarrow> bytes \<Rightarrow> bytes" where
  "sim_prf cid salt = map (\<lambda>b. b XOR foldr (XOR) cid 0) salt"

definition sim_authenticator :: "bool \<Rightarrow> bool \<Rightarrow> crypto_key platform" where
  "sim_authenticator at_creation on_assertion =
     \<lparr>IS_SUPPORTED = True,
      hostname = ''diary.example'',
      credentials_create =
        (\<lambda>opts. Inr (Some \<lparr>cred_rawId = [1, 2, 3, 4],
                              cred_prf_first =
                                (if at_creation
                                 then Some (sim_prf [1, 2, 3, 4] (co_prf_eval_first opts))
                                 else None)\<rparr>)),
      credentials_get =
        (\<lambda>opts. Inr (Some \<lparr>asr_prf_first =
                                (case ao_allowCredentials opts of
                                   [cid] \<Rightarrow>
                                     if on_assertion
                                     then Some (sim_prf cid (ao_prf_eval_first opts))
                                     else None
                                 | _ \<Rightarrow> None)\<rparr>)),
      subtle_importKey_raw = (\<lambda>bs. Inr (CryptoKey bs))\<rparr>"

definition sim_declining :: "crypto_key platform" where
  "sim_declining =
     \<lparr>IS_SUPPORTED = True,
      hostname = ''diary.example'',
      credentials_create =
        (\<lambda>opts. Inl (DOMException ''NotAllowedError'' ''The operation was cancelled.'')),
      credentials_get =
        (\<lambda>opts. Inl (DOMException ''NotAllowedError'' ''The operation was cancelled.'')),
      subtle_importKey_raw = (\<lambda>bs. Inr (CryptoKey bs))\<rparr>"

text \<open>
  What holds of every state a session reaches: while no key is held, the state is not
  \<open>Ready\<close> and \<open>setKey\<close> has not been called; and in \<open>Checking\<close> no key is held.
\<close>

definition lifecycle_inv :: "'k diary_app \<Rightarrow> bool" where
  "lifecycle_inv s \<longleftrightarrow>
     (case app_key s of
        None \<Rightarrow> app_keyStatus s \<noteq> Ready \<and> app_key_writes s = []
      | Some k \<Rightarrow> app_keyStatus s \<noteq> Checking)"

text \<open>
  A row fails when \<open>decrypt\<close> rejects its \<open>encrypted_entry\<close> and \<open>iv\<close>, or the parser rejects
  the decrypted text.  \<open>rejected_rows\<close> are the rows of a batch that fail;
  \<open>readable_entries\<close> are the others, in order, each with the title and content the
  parser gave.
\<close>

definition row_fails ::
  "('k \<Rightarrow> string \<Rightarrow> string \<Rightarrow> error + string) \<Rightarrow> (string \<Rightarrow> error + 'v \<times> 'v) \<Rightarrow> 'k
     \<Rightarrow> diary_row \<Rightarrow> bool" where
  "row_fails dec parse k r \<longleftrightarrow>
     (case dec k (dr_encrypted_entry r) (dr_iv r) of
        Inl e \<Rightarrow> True
      | Inr decrypted \<Rightarrow> (case parse decrypted of Inl e \<Rightarrow> True | Inr tc \<Rightarrow> False))"

definition rejected_rows ::
  "('k \<Rightarrow> string \<Rightarrow> string \<Rightarrow> error + string) \<Rightarrow> (string \<Rightarrow> error + 'v \<times> 'v) \<Rightarrow> 'k
     \<Rightarrow> diary_row list \<Rightarrow> diary_row list" where
  "rejected_rows dec parse k rows = filter (row_fails dec parse k) rows"

definition readable_entries ::
  "('k \<Rightarrow> string \<Rightarrow> string \<Rightarrow> error + string) \<Rightarrow> (string \<Rightarrow> error + 'v \<times> 'v) \<Rightarrow> 'k
     \<Rightarrow> diary_row list \<Rightarrow> 'v diary_entry list" where
  "readable_entries dec parse k rows =
     concat (map (\<lambda>r. case dec k (dr_encrypted_entry r) (dr_iv r) of
                         Inl e \<Rightarrow> []
                       | Inr decrypted \<Rightarrow>
                           (case parse decrypted of
                              Inl e \<Rightarrow> []
                            | Inr (t, c) \<Rightarrow> [\<lparr>de_row = r, de_title = t, de_content = c\<rparr>]))
                 rows)"

text \<open>Which calls are writes to the store, and which are calls into the crypto module.\<close>

fun is_store_write :: "'k event \<Rightarrow> bool" where
  "is_store_write (ProfilesInsert row) = True"
| "is_store_write e = False"

fun is_crypto_call :: "'k event \<Rightarrow> bool" where
  "is_crypto_call GenerateSalt = True"
| "is_crypto_call (DeriveKey pw salt) = True"
| "is_crypto_call (Encrypt k plaintext) = True"
| "is_crypto_call e = False"

fun is_encrypt_call :: "'k event \<Rightarrow> bool" where
  "is_encrypt_call (Encrypt k plaintext) = True"
| "is_encrypt_call e = False"

text \<open>The object that \<open>handleSubmit\<close> passes to \<open>insert\<close>, given the user and what
  \<open>encrypt\<close> returned.\<close>

definition key_setup_row :: "'k setup_imports \<Rightarrow> session_user \<Rightarrow> envelope \<Rightarrow> profile_row" where
  "key_setup_row imp u enc =
     \<lparr>pr_id = su_id u,
      pr_salt = generateSalt imp,
      pr_key_check_value = env_data enc,
      pr_key_check_iv = env_iv enc,
      pr_full_name = su_full_name u,
      pr_avatar_url = su_avatar_url u\<rparr>"

text \<open>
  Stand-ins for the first-time setup and for a batch of entries: a key derivation that
  joins password and salt, a store whose insert returns a given error or none, a parser
  that splits a text at its first bar, and ten stored rows encrypted under the key
  \<open>[42, 43, 44, 45]\<close> of which the fourth and the eighth have \<open>iv\<close> and ciphertext
  swapped.
\<close>

definition sim_setup :: "error option \<Rightarrow> crypto_key setup_imports" where
  "sim_setup insertError =
     \<lparr>KEY_CHECK_STRING = ''key-check'',
      generateSalt = ''BQYHCA=='',
      deriveKey = (\<lambda>password salt. Inr (CryptoKey (map ucast password @ utf8_bytes salt))),
      su_encrypt = (\<lambda>k plaintext. Inr (encrypt toy_gcm [1, 2, 3] k plaintext)),
      profiles_insert = (\<lambda>row. insertError)\<rparr>"

definition sample_user :: session_user where
  "sample_user = \<lparr>su_id = [0x75, 0x31], su_full_name = Some ''Ada'', su_avatar_url = None\<rparr>"

definition sample_form :: setup_form where
  "sample_form =
     \<lparr>sf_password = [0x63, 0x6f, 0x72, 0x72, 0x65, 0x63, 0x74, 0x68, 0x6f, 0x72, 0x73, 0x65],
      sf_loading = False, sf_error = None\<rparr>"

definition sample_key :: crypto_key where
  "sample_key = CryptoKey (map ucast (sf_password sample_form) @ utf8_bytes ''BQYHCA=='')"

definition sample_profile :: profile_row where
  "sample_profile =
     \<lparr>pr_id = [0x75, 0x31],
      pr_salt = ''BQYHCA=='',
      pr_key_check_value = env_data (encrypt toy_gcm [1, 2, 3] sample_key ''key-check''),
      pr_key_check_iv = env_iv (encrypt toy_gcm [1, 2, 3] sample_key ''key-check''),
      pr_full_name = Some ''Ada'',
      pr_avatar_url = None\<rparr>"

definition toy_parse :: "string \<Rightarrow> error + string \<times> string" where
  "toy_parse s =
     (if CHR ''|'' \<in> set s
      then Inr (takeWhile (\<lambda>c. c \<noteq> CHR ''|'') s, tl (dropWhile (\<lambda>c. c \<noteq> CHR ''|'') s))
      else Inl (Error ''SyntaxError''))"

definition sample_row0 :: diary_row where
  "sample_row0 =
     \<lparr>dr_id = ''e0'', dr_owner_id = ''u1'', dr_encrypted_entry = ''dzJ9YwNbAAAAAAAAAAAAAAAAAAA='',
      dr_iv = ''AAEC'', dr_created_at = ''2024-04-10''\<rparr>"

definition sample_row1 :: diary_row where
  "sample_row1 =
     \<lparr>dr_id = ''e1'', dr_owner_id = ''u1'', dr_encrypted_entry = ''djJ8YgJaAAAAAAAAAAAAAAAAAAA='',
      dr_iv = ''AQEC'', dr_created_at = ''2024-04-11''\<rparr>"

definition sample_row2 :: diary_row where
  "sample_row2 =
     \<lparr>dr_id = ''e2'', dr_owner_id = ''u1'', dr_encrypted_entry = ''dTJ/YQFZAAAAAAAAAAAAAAAAAAA='',
      dr_iv = ''AgEC'', dr_created_at = ''2024-04-12''\<rparr>"

definition sample_row3 :: diary_row where
  "sample_row3 =
     \<lparr>dr_id = ''e3'', dr_owner_id = ''u1'', dr_encrypted_entry = ''AwEC'',
      dr_iv = ''dDJ+YABYAAAAAAAAAAAAAAAAAAA='', dr_created_at = ''2024-04-13''\<rparr>"

definition sample_row4 :: diary_row where
  "sample_row4 =
     \<lparr>dr_id = ''e4'', dr_owner_id = ''u1'', dr_encrypted_entry = ''czJ5ZwdfAAAAAAAAAAAAAAAAAAA='',
      dr_iv = ''BAEC'', dr_created_at = ''2024-04-14''\<rparr>"

definition sample_row5 :: diary_row where
  "sample_row5 =
     \<lparr>dr_id = ''e5'', dr_owner_id = ''u1'', dr_encrypted_entry = ''cjJ4ZgZeAAAAAAAAAAAAAAAAAAA='',
      dr_iv = ''BQEC'', dr_created_at = ''2024-04-15''\<rparr>"

definition sample_row6 :: diary_row where
  "sample_row6 =
     \<lparr>dr_id = ''e6'', dr_owner_id = ''u1'', dr_encrypted_entry = ''cTJ7ZQVdAAAAAAAAAAAAAAAAAAA='',
      dr_iv = ''BgEC'', dr_created_at = ''2024-04-16''\<rparr>"

definition sample_row7 :: diary_row where
  "sample_row7 =
     \<lparr>dr_id = ''e7'', dr_owner_id = ''u1'', dr_encrypted_entry = ''BwEC'',
      dr_iv = ''cDJ6ZARcAAAAAAAAAAAAAAAAAAA='', dr_created_at = ''2024-04-17''\<rparr>"

definition sample_row8 :: diary_row where
  "sample_row8 =
     \<lparr>dr_id = ''e8'', dr_owner_id = ''u1'', dr_encrypted_entry = ''fzJ1awtTAAAAAAAAAAAAAAAAAAA='',
      dr_iv = ''CAEC'', dr_created_at = ''2024-04-18''\<rparr>"

definition sample_row9 :: diary_row where
  "sample_row9 =
     \<lparr>dr_id = ''e9'', dr_owner_id = ''u1'', dr_encrypted_entry = ''fjJ0agpSAAAAAAAAAAAAAAAAAAA='',
      dr_iv = ''CQEC'', dr_created_at = ''2024-04-19''\<rparr>"

definition sample_rows :: "diary_row list" where
  "sample_rows = [sample_row0, sample_row1, sample_row2, sample_row3, sample_row4,
                  sample_row5, sample_row6, sample_row7, sample_row8, sample_row9]"

section \<open>Base64 decodes what it encoded\<close>

lemma b64_index_char: "n < 64 \<Longrightarrow> b64_index (b64_char n) = Some n"
  by (auto simp: b64_index_def b64_char_def Let_def)

lemma b64_index_pad: "b64_index (CHR ''='') = None"
  by (simp add: b64_index_def)

lemma b64_index_sextet: "b64_index (sextet n i) = Some (n div 64 ^ i mod 64)"
  unfolding sextet_def by (rule b64_index_char) simp

lemma sextet_not_pad: "sextet n i \<noteq> CHR ''=''"
  using b64_index_sextet [of n i] b64_index_pad by auto

lemma b64_char_0: "b64_char 0 = CHR ''A''"
  by code_simp

lemma sextets_value:
  fixes n :: nat
  assumes "n < 16777216"
  shows "((n div 64 ^ 3 mod 64 * 64 + n div 64 ^ 2 mod 64) * 64 + n div 64 ^ 1 mod 64) * 64
           + n div 64 ^ 0 mod 64 = n"
proof -
  define q1 where "q1 = n div 64"
  define q2 where "q2 = q1 div 64"
  define q3 where "q3 = q2 div 64"
  have d2: "n div 64 ^ 2 = q2"
    unfolding q2_def q1_def by (simp add: div_mult2_eq [symmetric])
  have d3: "n div 64 ^ 3 = q3"
    unfolding q3_def q2_def q1_def by (simp add: div_mult2_eq [symmetric])
  have "q3 < 64"
    using assms unfolding d3 [symmetric] by simp
  then have m3: "q3 mod 64 = q3" by simp
  have e1: "n = q1 * 64 + n mod 64" unfolding q1_def by simp
  have e2: "q1 = q2 * 64 + q1 mod 64" unfolding q2_def by simp
  have e3: "q2 = q3 * 64 + q2 mod 64" unfolding q3_def by simp
  have "((q3 * 64 + q2 mod 64) * 64 + q1 mod 64) * 64 + n mod 64 = n"
    using e1 e2 e3 by simp
  then show ?thesis
    unfolding d2 d3 m3 by (simp add: q1_def)
qed

lemma quad_sextets:
  assumes "n < 16777216"
  shows "quad (sextet n 3) (sextet n 2) (sextet n 1) (sextet n 0) = Some n"
  unfolding quad_def b64_index_sextet
  by (simp only: prod.case option.case sextets_value [OF assms])

lemmas quad_sextets_Suc = quad_sextets [unfolded One_nat_def]

lemma unat_byte_less: "unat (a :: 8 word) < 256"
  using unsigned_less [of a, where 'a = nat] by simp

lemma group24_less: "group24 a b c < 16777216"
  unfolding group24_def
  using unat_byte_less [of a] unat_byte_less [of b] unat_byte_less [of c] by simp

lemma of_nat_unat_byte: "(of_nat (unat (a :: 8 word)) :: 8 word) = a"
  by simp

lemma of_nat_byte_drop: "(of_nat (x * 256 + y) :: 8 word) = of_nat y"
  unfolding word_of_nat_eq_iff by (simp add: take_bit_eq_mod)

lemma octets_group24: "octets (group24 a b c) = [a, b, c]"
proof -
  have a: "unat a < 256" and b: "unat b < 256" and c: "unat c < 256"
    by (rule unat_byte_less)+
  have d1: "(unat a * 65536 + unat b * 256 + unat c) div 65536 = unat a"
    and d2: "(unat a * 65536 + unat b * 256 + unat c) div 256 = unat a * 256 + unat b"
    using a b c by simp_all
  have 3: "(of_nat (unat a * 256 + unat b) :: 8 word) = b"
    unfolding of_nat_byte_drop by (rule of_nat_unat_byte)
  have "unat a * 65536 + unat b * 256 + unat c = (unat a * 256 + unat b) * 256 + unat c"
    by simp
  then have 4: "(of_nat (unat a * 65536 + unat b * 256 + unat c) :: 8 word) = c"
    by (simp only: of_nat_byte_drop of_nat_unat_byte)
  show ?thesis
    unfolding octets_def group24_def d1 d2 3 4 of_nat_unat_byte ..
qed

lemma sextet_0_of_pad: "sextet (group24 a b 0) 0 = CHR ''A''"
proof -
  have "(unat a * 65536 + unat b * 256) mod 64 = ((unat a * 1024 + unat b * 4) * 64) mod 64"
    by simp
  then have "(unat a * 65536 + unat b * 256) mod 64 = 0"
    by (simp only: mod_mult_self2_is_0)
  then show ?thesis
    unfolding sextet_def group24_def by (simp add: b64_char_0)
qed

lemma sextet_1_of_pad: "sextet (group24 a 0 0) 1 = CHR ''A''"
proof -
  have "unat a * 65536 div 64 = (unat a * 16) * 64"
    by simp
  then have "unat a * 65536 div 64 mod 64 = 0"
    by (simp only: mod_mult_self2_is_0)
  then show ?thesis
    unfolding sextet_def group24_def by (simp add: b64_char_0)
qed

lemmas sextet_1_of_pad_Suc = sextet_1_of_pad [unfolded One_nat_def]

lemma decode_final_three:
  "decodeBase64 [sextet (group24 a b c) 3, sextet (group24 a b c) 2,
                 sextet (group24 a b c) 1, sextet (group24 a b c) 0] = Inr [a, b, c]"
  by (simp add: final_quad_def sextet_not_pad quad_sextets_Suc [OF group24_less] octets_group24)

lemma decode_final_two:
  "decodeBase64 [sextet (group24 a b 0) 3, sextet (group24 a b 0) 2,
                 sextet (group24 a b 0) 1, CHR ''=''] = Inr [a, b]"
  using quad_sextets_Suc [OF group24_less, of a b 0]
  by (simp add: final_quad_def sextet_not_pad sextet_0_of_pad octets_group24)

lemma decode_final_one:
  "decodeBase64 [sextet (group24 a 0 0) 3, sextet (group24 a 0 0) 2,
                 CHR ''='', CHR ''=''] = Inr [a]"
  using quad_sextets_Suc [OF group24_less, of a 0 0]
  by (simp add: final_quad_def sextet_0_of_pad sextet_1_of_pad_Suc octets_group24)

lemma encodeBase64_Nil_iff: "encodeBase64 bs = [] \<longleftrightarrow> bs = []"
  by (induction bs rule: encodeBase64.induct) (simp_all add: Let_def)

lemma decodeBase64_encodeBase64: "decodeBase64 (encodeBase64 bs) = Inr bs"
proof (induction bs rule: encodeBase64.induct)
  case (1 a b c rest)
  show ?case
  proof (cases "rest = []")
    case True
    then show ?thesis
      using decode_final_three [of a b c] by (simp add: Let_def)
  next
    case False
    then have "encodeBase64 rest \<noteq> []"
      by (simp add: encodeBase64_Nil_iff)
    then show ?thesis
      using "1.IH" by (simp add: Let_def quad_sextets_Suc [OF group24_less] octets_group24)
  qed
next
  case (2 a b)
  show ?case using decode_final_two [of a b] by (simp add: Let_def)
next
  case (3 a)
  show ?case using decode_final_one [of a] by (simp add: Let_def)
next
  case 4
  show ?case by simp
qed

section \<open>The envelope cipher returns what it was given\<close>

lemma length_ctr_xor: "length (ctr_xor g k nonce bs) = length bs"
  by (simp add: ctr_xor_def)

lemma ctr_xor_nth:
  "i < length bs \<Longrightarrow> ctr_xor g k nonce bs ! i = bs ! i XOR gcm_keystream g k nonce i"
  by (simp add: ctr_xor_def)

lemma ctr_xor_involution: "ctr_xor g k nonce (ctr_xor g k nonce bs) = bs"
  by (rule nth_equalityI) (simp_all add: length_ctr_xor ctr_xor_nth xor.assoc)

lemma length_tag16: "length (tag16 g k nonce c) = 16"
  by (simp add: tag16_def)

lemma envelope_decrypt_encrypt:
  "envelope_decrypt g k (sl_ciphertext (envelope_encrypt g nonce k p))
                        (sl_nonce (envelope_encrypt g nonce k p)) = Inr p"
  by (simp add: envelope_decrypt_def envelope_encrypt_def Let_def length_tag16 ctr_xor_involution)

lemma utf8_text_bytes: "utf8_text (utf8_bytes s) = s"
  by (simp add: utf8_text_def utf8_bytes_def unat_of_nat map_idI)

lemma decrypt_encrypt:
  "decrypt g key (env_data (encrypt g nonce key p)) (env_iv (encrypt g nonce key p)) = Inr p"
  using envelope_decrypt_encrypt [of g "raw key" nonce "utf8_bytes p"]
  by (simp add: encrypt_def decrypt_def Let_def decodeBase64_encodeBase64 utf8_text_bytes)

lemma importKey_exportKey: "importKey (exportKey key) = Inr key"
  by (simp add: importKey_def exportKey_def decodeBase64_encodeBase64)

text \<open>
  C1.  For every key and every plaintext, decrypting what encrypting returned, under the
  same key, gives the plaintext back: for the envelope cipher on byte sequences, and for
  \<open>encrypt\<close> and \<open>decrypt\<close> as the crypto context exposes them, on text with its Base64
  envelope.  This holds whatever nonce the call drew and whatever the platform's keystream
  and tag functions are.
\<close>

theorem encrypt_decrypt_round_trip:
  "envelope_decrypt g k (sl_ciphertext (envelope_encrypt g nonce k p))
                        (sl_nonce (envelope_encrypt g nonce k p)) = Inr p
   \<and> decrypt g key (env_data (encrypt g nonce key t)) (env_iv (encrypt g nonce key t)) = Inr t"
proof
  let ?c = "ctr_xor g k nonce p"
  have "length (?c @ tag16 g k nonce ?c) - 16 = length ?c"
    by (simp add: length_tag16)
  then have "envelope_decrypt g k (?c @ tag16 g k nonce ?c) nonce = Inr (ctr_xor g k nonce ?c)"
    by (simp add: envelope_decrypt_def length_tag16)
  then show "envelope_decrypt g k (sl_ciphertext (envelope_encrypt g nonce k p))
      (sl_nonce (envelope_encrypt g nonce k p)) = Inr p"
    by (simp add: envelope_encrypt_def Let_def ctr_xor_involution)
next
  let ?s = "envelope_encrypt g nonce (raw key) (utf8_bytes t)"
  have "decodeBase64 (encodeBase64 (sl_nonce ?s)) = Inr (sl_nonce ?s)"
    and "decodeBase64 (encodeBase64 (sl_ciphertext ?s)) = Inr (sl_ciphertext ?s)"
    by (rule decodeBase64_encodeBase64)+
  moreover have "envelope_decrypt g (raw key) (sl_ciphertext ?s) (sl_nonce ?s) = Inr (utf8_bytes t)"
    by (rule envelope_decrypt_encrypt)
  ultimately show "decrypt g key (env_data (encrypt g nonce key t)) (env_iv (encrypt g nonce key t)) = Inr t"
    by (simp add: decrypt_def encrypt_def Let_def utf8_text_bytes)
qed

section \<open>Running the simulated collaborators\<close>

text \<open>Unfolding sets that let the simplifier compute Base64 text and the cipher on
  concrete bytes.\<close>

lemmas b64_eval = Let_def sextet_def group24_def b64_char_def char_of_def bit_Suc_0_iff
  final_quad_def quad_def b64_index_def octets_def

lemmas cipher_eval = encrypt_def decrypt_def envelope_encrypt_def envelope_decrypt_def
  ctr_xor_def tag16_def utf8_bytes_def utf8_text_def exportKey_def importKey_def

lemma replicate_numeral_eval: "replicate (numeral n) x = x # replicate (pred_numeral n) x"
  by (simp add: numeral_eq_Suc)

lemmas sim_eval = sim_authenticator_def sim_prf_def toy_gcm_def crypto_def
  assertionOptions_def creationOptions_def assertion_prf_def is_high_surrogate_def
  is_low_surrogate_def replicate_numeral_eval

lemma sim_register_B:
  "registerBiometric (sim_authenticator False True) (crypto toy_gcm [9, 8, 7]) [5, 6, 7, 8] [1, 1] [2, 2]
     (CryptoKey [42, 43, 44, 45]) [0x75, 0x31] =
   ([CredentialsCreate (creationOptions (sim_authenticator False True) [5, 6, 7, 8] [1, 1] [0x75, 0x31]),
     CredentialsGet (assertionOptions (sim_authenticator False True) [2, 2] [1, 2, 3, 4] [5, 6, 7, 8])],
    Inr \<lparr>bd_credentialId = ''AQIDBA=='', bd_salt = ''BQYHCA=='',
         bd_encryptedKey = ''QWJ7ekJeMTAKPwAAAAAAAAAAAAAAAAAA'', bd_iv = ''CQgH''\<rparr>)"
  by (simp add: registerBiometric_def wrapMasterKey_def sim_eval cipher_eval b64_eval)

lemma sim_unlock_B:
  "unlockBiometric (sim_authenticator False True) (crypto toy_gcm [0]) [3, 3]
     \<lparr>bd_credentialId = ''AQIDBA=='', bd_salt = ''BQYHCA=='',
         bd_encryptedKey = ''QWJ7ekJeMTAKPwAAAAAAAAAAAAAAAAAA'', bd_iv = ''CQgH''\<rparr> =
   ([CredentialsGet (assertionOptions (sim_authenticator False True) [3, 3] [1, 2, 3, 4] [5, 6, 7, 8])],
    Inr (CryptoKey [42, 43, 44, 45]))"
  by (simp add: unlockBiometric_def sim_eval cipher_eval b64_eval)

lemma sim_authenticator_stable: "prf_stable (sim_authenticator x y) sim_prf"
  by (auto simp: prf_stable_def sim_authenticator_def split: if_splits list.splits)

section \<open>\<open>registerBiometric\<close>: where the PRF output comes from\<close>

lemma registerBiometric_unsupported:
  "\<not> IS_SUPPORTED pf \<Longrightarrow>
   registerBiometric pf lib saltBuffer challenge challengeB masterKey userId =
     ([], Inl (Error ''WebAuthn not supported''))"
  by (simp add: registerBiometric_def)

lemma registerBiometric_create_rejects:
  "IS_SUPPORTED pf \<Longrightarrow>
   credentials_create pf (creationOptions pf saltBuffer challenge userId) = Inl e \<Longrightarrow>
   registerBiometric pf lib saltBuffer challenge challengeB masterKey userId =
     ([CredentialsCreate (creationOptions pf saltBuffer challenge userId)], Inl e)"
  by (simp add: registerBiometric_def Let_def)

lemma registerBiometric_create_null:
  "IS_SUPPORTED pf \<Longrightarrow>
   credentials_create pf (creationOptions pf saltBuffer challenge userId) = Inr None \<Longrightarrow>
   registerBiometric pf lib saltBuffer challenge challengeB masterKey userId =
     ([CredentialsCreate (creationOptions pf saltBuffer challenge userId)],
      Inl (Error ''Failed to create credential''))"
  by (simp add: registerBiometric_def Let_def)





section \<open>\<open>unlockBiometric\<close>: how it fails\<close>

text \<open>
  C4, as the spec states it, has the unwrap failure reported as \<open>UnwrapFailedError\<close>, an
  error the spec keeps apart from the cipher's \<open>IntegrityError\<close>.  \<open>unlockBiometric\<close> has
  no \<open>catch\<close> and throws nothing at that step: on a record whose wrapped key was altered,
  the call rejects with the very \<open>IntegrityError\<close> that \<open>decrypt\<close> rejected with.
\<close>

theorem unlockBiometric_unwrap_error_counterexample:
  "lib_decrypt (crypto toy_gcm [0]) (CryptoKey (sim_prf [1, 2, 3, 4] [5, 6, 7, 8]))
      ''QWJ7ekJeMTAKPwAAAAAAAAAAAAAAAAAB'' ''CQgH'' = Inl IntegrityError
   \<and> snd (unlockBiometric (sim_authenticator True True) (crypto toy_gcm [0]) [4, 4]
          \<lparr>bd_credentialId = ''AQIDBA=='', bd_salt = ''BQYHCA=='',
            bd_encryptedKey = ''QWJ7ekJeMTAKPwAAAAAAAAAAAAAAAAAB'', bd_iv = ''CQgH''\<rparr>) =
       Inl IntegrityError"
  by (simp add: unlockBiometric_def sim_eval cipher_eval b64_eval)

text \<open>
  C4, amended.  In every run of \<open>unlockBiometric\<close> in which the authenticator returned an
  assertion: if the assertion carries no PRF output, the call fails with the error
  "Could not retrieve PRF key from authenticator." (the spec's
  \<open>AuthenticatorCapabilityError\<close>); if decrypting the stored wrapped key under the
  re-derived wrapping key fails, the call fails with exactly the error that \<open>decrypt\<close>
  rejected with, passed on unchanged.  In both cases no key is returned, and the only call
  made is the one assertion: nothing is derived from a password.
\<close>

theorem unlockBiometric_failures:
  assumes "lib_decodeBase64 lib (bd_salt data) = Inr saltBuffer"
    and "lib_decodeBase64 lib (bd_credentialId data) = Inr credentialIdBuffer"
    and "credentials_get pf (assertionOptions pf challenge credentialIdBuffer saltBuffer) = Inr (Some a)"
  shows "case asr_prf_first a of
           None \<Rightarrow>
             unlockBiometric pf lib challenge data =
               ([CredentialsGet (assertionOptions pf challenge credentialIdBuffer saltBuffer)],
                Inl (Error ''Could not retrieve PRF key from authenticator.''))
         | Some first \<Rightarrow>
             (case subtle_importKey_raw pf first of
                Inl e \<Rightarrow>
                  unlockBiometric pf lib challenge data =
                    ([CredentialsGet (assertionOptions pf challenge credentialIdBuffer saltBuffer)], Inl e)
              | Inr wrappingKey \<Rightarrow>
                  (case lib_decrypt lib wrappingKey (bd_encryptedKey data) (bd_iv data) of
                     Inl e \<Rightarrow>
                       unlockBiometric pf lib challenge data =
                         ([CredentialsGet (assertionOptions pf challenge credentialIdBuffer saltBuffer)],
                          Inl e)
                   | Inr masterKeyString \<Rightarrow>
                       unlockBiometric pf lib challenge data =
                         ([CredentialsGet (assertionOptions pf challenge credentialIdBuffer saltBuffer)],
                          lib_importKey lib masterKeyString)))"
  using assms by (simp add: unlockBiometric_def Let_def split: sum.splits option.splits)

theorem unlockBiometric_failures_witness:
  "unlockBiometric (sim_authenticator False False) (crypto toy_gcm [0]) [3, 3]
     \<lparr>bd_credentialId = ''AQIDBA=='', bd_salt = ''BQYHCA=='',
         bd_encryptedKey = ''QWJ7ekJeMTAKPwAAAAAAAAAAAAAAAAAA'', bd_iv = ''CQgH''\<rparr> =
   ([CredentialsGet (assertionOptions (sim_authenticator False False) [3, 3] [1, 2, 3, 4] [5, 6, 7, 8])],
    Inl (Error ''Could not retrieve PRF key from authenticator.''))
   \<and> unlockBiometric (sim_authenticator False True) (crypto toy_gcm [0]) [3, 3]
     \<lparr>bd_credentialId = ''AQIDBA=='', bd_salt = ''BQYHCA=='',
         bd_encryptedKey = ''QWJ7ekJeMTAKPwAAAAAAAAAAAAAAAAAB'', bd_iv = ''CQgH''\<rparr> =
   ([CredentialsGet (assertionOptions (sim_authenticator False True) [3, 3] [1, 2, 3, 4] [5, 6, 7, 8])],
    Inl IntegrityError)"
proof -
  let ?lib = "crypto toy_gcm [0]"
  let ?good = "\<lparr>bd_credentialId = ''AQIDBA=='', bd_salt = ''BQYHCA=='',
         bd_encryptedKey = ''QWJ7ekJeMTAKPwAAAAAAAAAAAAAAAAAA'', bd_iv = ''CQgH''\<rparr>"
  let ?bad = "\<lparr>bd_credentialId = ''AQIDBA=='', bd_salt = ''BQYHCA=='',
         bd_encryptedKey = ''QWJ7ekJeMTAKPwAAAAAAAAAAAAAAAAAB'', bd_iv = ''CQgH''\<rparr>"
  have salt: "lib_decodeBase64 ?lib (bd_salt ?good) = Inr [5, 6, 7, 8]"
      "lib_decodeBase64 ?lib (bd_salt ?bad) = Inr [5, 6, 7, 8]"
    by (simp_all add: crypto_def b64_eval)
  have cid: "lib_decodeBase64 ?lib (bd_credentialId ?good) = Inr [1, 2, 3, 4]"
      "lib_decodeBase64 ?lib (bd_credentialId ?bad) = Inr [1, 2, 3, 4]"
    by (simp_all add: crypto_def b64_eval)
  have got: "credentials_get (sim_authenticator False y)
       (assertionOptions (sim_authenticator False y) [3, 3] [1, 2, 3, 4] [5, 6, 7, 8]) =
     Inr (Some \<lparr>asr_prf_first = (if y then Some (sim_prf [1, 2, 3, 4] [5, 6, 7, 8]) else None)\<rparr>)" for y
    by (simp add: sim_authenticator_def assertionOptions_def)
  have imported: "subtle_importKey_raw (sim_authenticator x y) bs = Inr (CryptoKey bs)" for x y bs
    by (simp add: sim_authenticator_def)
  have tampered: "lib_decrypt ?lib (CryptoKey (sim_prf [1, 2, 3, 4] [5, 6, 7, 8]))
      ''QWJ7ekJeMTAKPwAAAAAAAAAAAAAAAAAB'' ''CQgH'' = Inl IntegrityError"
    by (simp add: sim_eval cipher_eval b64_eval)
  show ?thesis
    using unlockBiometric_failures [OF salt(1) cid(1) got, of False]
      unlockBiometric_failures [OF salt(2) cid(2) got, of True]
    by (simp add: imported tampered)
qed

section \<open>\<open>registerBiometric\<close>: a record only when every step succeeded\<close>

lemma registerBiometric_calls:
  "list_all is_authenticator_call
     (fst (registerBiometric pf lib saltBuffer challenge challengeB masterKey userId))"
  by (simp add: registerBiometric_def Let_def split: sum.splits option.splits)

lemma wrapMasterKey_Inr_iff:
  "wrapMasterKey pf lib material masterKey credentialId saltBase64 = Inr data \<longleftrightarrow>
     (\<exists>wrappingKey masterKeyString enc.
        subtle_importKey_raw pf material = Inr wrappingKey \<and>
        lib_exportKey lib masterKey = Inr masterKeyString \<and>
        lib_encrypt lib wrappingKey masterKeyString = Inr enc \<and>
        data = \<lparr>bd_credentialId = credentialId, bd_salt = saltBase64,
                 bd_encryptedKey = env_data enc, bd_iv = env_iv enc\<rparr>)"
  by (auto simp: wrapMasterKey_def split: sum.splits)

lemma registerBiometric_Inr_iff:
  "snd (registerBiometric pf lib saltBuffer challenge challengeB masterKey userId) = Inr data \<longleftrightarrow>
     IS_SUPPORTED pf \<and>
     (\<exists>credential material.
        credentials_create pf (creationOptions pf saltBuffer challenge userId) = Inr (Some credential) \<and>
        prf_obtained pf saltBuffer challengeB credential material \<and>
        wrapMasterKey pf lib material masterKey
          (lib_encodeBase64 lib (cred_rawId credential)) (lib_encodeBase64 lib saltBuffer) = Inr data)"
  by (auto simp: registerBiometric_def prf_obtained_def Let_def split: sum.splits option.splits)

lemma registerBiometric_Inr_steps:
  "snd (registerBiometric pf lib saltBuffer challenge challengeB masterKey userId) = Inr data \<longleftrightarrow>
   registration_succeeds pf lib saltBuffer challenge challengeB masterKey userId data"
  unfolding registerBiometric_Inr_iff registration_succeeds_def wrapMasterKey_Inr_iff by blast

text \<open>
  C9.  \<open>registerBiometric\<close> calls nothing but the authenticator: it writes to no store.
  It returns a record exactly when every step succeeded (the creation, the PRF output
  from step A or step B, the import of the wrapping key, the export of the master key and
  the encryption), and the record then has all four fields, built from what those steps
  returned.  In every other run, a cancelled prompt included, it settles to an error and
  there is no record, whole or partial.
\<close>

theorem registerBiometric_all_or_nothing:
  "list_all is_authenticator_call
     (fst (registerBiometric pf lib saltBuffer challenge challengeB masterKey userId)) \<and>
   (case snd (registerBiometric pf lib saltBuffer challenge challengeB masterKey userId) of
      Inr data \<Rightarrow> registration_succeeds pf lib saltBuffer challenge challengeB masterKey userId data
    | Inl err \<Rightarrow>
        \<not> (\<exists>data. registration_succeeds pf lib saltBuffer challenge challengeB masterKey userId data))"
proof -
  let ?r = "snd (registerBiometric pf lib saltBuffer challenge challengeB masterKey userId)"
  have "registration_succeeds pf lib saltBuffer challenge challengeB masterKey userId data"
    if "?r = Inr data" for data
    using that by (simp add: registerBiometric_Inr_steps)
  moreover have "\<not> registration_succeeds pf lib saltBuffer challenge challengeB masterKey userId data"
    if "?r = Inl err" for err data
    using that registerBiometric_Inr_steps [of pf lib saltBuffer challenge challengeB masterKey userId data]
    by simp
  ultimately show ?thesis
    by (simp add: registerBiometric_calls split: sum.splits)
qed

theorem registerBiometric_all_or_nothing_witness:
  "registerBiometric sim_declining (crypto toy_gcm [9, 8, 7]) [5, 6, 7, 8] [1, 1] [2, 2]
     (CryptoKey [42, 43, 44, 45]) [0x75, 0x31] =
   ([CredentialsCreate (creationOptions sim_declining [5, 6, 7, 8] [1, 1] [0x75, 0x31])],
    Inl (DOMException ''NotAllowedError'' ''The operation was cancelled.''))
   \<and> list_all is_authenticator_call
        (fst (registerBiometric sim_declining (crypto toy_gcm [9, 8, 7]) [5, 6, 7, 8] [1, 1] [2, 2]
           (CryptoKey [42, 43, 44, 45]) [0x75, 0x31]))
   \<and> \<not> (\<exists>data. registration_succeeds sim_declining (crypto toy_gcm [9, 8, 7]) [5, 6, 7, 8] [1, 1] [2, 2]
           (CryptoKey [42, 43, 44, 45]) [0x75, 0x31] data)
   \<and> registration_succeeds (sim_authenticator False True) (crypto toy_gcm [9, 8, 7]) [5, 6, 7, 8] [1, 1] [2, 2]
           (CryptoKey [42, 43, 44, 45]) [0x75, 0x31]
           \<lparr>bd_credentialId = ''AQIDBA=='', bd_salt = ''BQYHCA=='',
             bd_encryptedKey = ''QWJ7ekJeMTAKPwAAAAAAAAAAAAAAAAAA'', bd_iv = ''CQgH''\<rparr>"
proof -
  have declined: "registerBiometric sim_declining (crypto toy_gcm [9, 8, 7]) [5, 6, 7, 8] [1, 1] [2, 2]
     (CryptoKey [42, 43, 44, 45]) [0x75, 0x31] =
   ([CredentialsCreate (creationOptions sim_declining [5, 6, 7, 8] [1, 1] [0x75, 0x31])],
    Inl (DOMException ''NotAllowedError'' ''The operation was cancelled.''))"
    by (simp add: registerBiometric_def sim_declining_def creationOptions_def)
  show ?thesis
    using registerBiometric_all_or_nothing [of sim_declining "crypto toy_gcm [9, 8, 7]"
        "[5, 6, 7, 8]" "[1, 1]" "[2, 2]" "CryptoKey [42, 43, 44, 45]" "[0x75, 0x31]"]
      registerBiometric_all_or_nothing [of "sim_authenticator False True" "crypto toy_gcm [9, 8, 7]"
        "[5, 6, 7, 8]" "[1, 1]" "[2, 2]" "CryptoKey [42, 43, 44, 45]" "[0x75, 0x31]"]
    by (simp add: declined sim_register_B)
qed

section \<open>Unlocking what was registered\<close>

lemma prf_obtained_stable:
  assumes stable: "prf_stable pf F"
    and created: "credentials_create pf (creationOptions pf saltBuffer challenge userId) = Inr (Some credential)"
    and got: "prf_obtained pf saltBuffer challengeB credential material"
  shows "material = F (cred_rawId credential) saltBuffer"
proof (cases "cred_prf_first credential")
  case (Some first)
  with got have "cred_prf_first credential = Some material"
    by (simp add: prf_obtained_def)
  with stable created have "material = F (cred_rawId credential)
      (co_prf_eval_first (creationOptions pf saltBuffer challenge userId))"
    unfolding prf_stable_def by blast
  then show ?thesis by (simp add: creationOptions_def)
next
  case None
  let ?opts = "assertionOptions pf challengeB (cred_rawId credential) saltBuffer"
  from got None obtain a where a: "credentials_get pf ?opts = Inr (Some a)"
      "asr_prf_first a = Some material"
    by (auto simp: prf_obtained_def assertion_prf_def split: sum.splits option.splits)
  have "ao_allowCredentials ?opts = [cred_rawId credential]"
    by (simp add: assertionOptions_def)
  with stable a have "material = F (cred_rawId credential) (ao_prf_eval_first ?opts)"
    unfolding prf_stable_def by blast
  then show ?thesis by (simp add: assertionOptions_def)
qed

text \<open>
  C2.  Let \<open>registerBiometric\<close> return the record \<open>data\<close> for the master key \<open>k\<close>, with
  the crypto module as modelled, on an authenticator whose PRF outputs are the fixed
  function \<open>F\<close> of credential and salt.  If the authenticator answers the assertion for
  the credential and the salt stored in \<open>data\<close> with a PRF output, then \<open>unlockBiometric\<close>
  makes that one assertion and returns \<open>k\<close>: the same raw key, hence the same encryption
  and decryption.
\<close>

theorem unlock_recovers_registered_key:
  assumes reg: "snd (registerBiometric pf (crypto g nonce) saltBuffer challenge challengeB k userId) = Inr data"
    and stable: "prf_stable pf F"
    and stored: "decodeBase64 (bd_credentialId data) = Inr storedId"
      "decodeBase64 (bd_salt data) = Inr storedSalt"
    and answered: "credentials_get pf (assertionOptions pf challenge' storedId storedSalt) = Inr (Some a)"
      "asr_prf_first a = Some m"
  shows "unlockBiometric pf (crypto g nonce') challenge' data =
           ([CredentialsGet (assertionOptions pf challenge' storedId storedSalt)], Inr k)"
proof -
  from reg obtain credential material where
      created: "credentials_create pf (creationOptions pf saltBuffer challenge userId) = Inr (Some credential)"
    and got: "prf_obtained pf saltBuffer challengeB credential material"
    and wrapped: "wrapMasterKey pf (crypto g nonce) material k
          (encodeBase64 (cred_rawId credential)) (encodeBase64 saltBuffer) = Inr data"
    unfolding registerBiometric_Inr_iff by (auto simp: crypto_def)
  have material: "material = F (cred_rawId credential) saltBuffer"
    by (rule prf_obtained_stable [OF stable created got])
  from wrapped obtain wrappingKey where
      imported: "subtle_importKey_raw pf material = Inr wrappingKey"
    and data: "data = \<lparr>bd_credentialId = encodeBase64 (cred_rawId credential),
                        bd_salt = encodeBase64 saltBuffer,
                        bd_encryptedKey = env_data (encrypt g nonce wrappingKey (exportKey k)),
                        bd_iv = env_iv (encrypt g nonce wrappingKey (exportKey k))\<rparr>"
    unfolding wrapMasterKey_Inr_iff by (auto simp: crypto_def)
  from stored have storedId: "storedId = cred_rawId credential" and storedSalt: "storedSalt = saltBuffer"
    by (simp_all add: data decodeBase64_encodeBase64)
  let ?opts = "assertionOptions pf challenge' storedId storedSalt"
  have "ao_allowCredentials ?opts = [cred_rawId credential]" "ao_prf_eval_first ?opts = saltBuffer"
    by (simp_all add: assertionOptions_def storedId storedSalt)
  with stable answered have "m = F (cred_rawId credential) saltBuffer"
    unfolding prf_stable_def by metis
  with material have m: "m = material" by simp
  show ?thesis
    using answered imported stored
    by (simp add: unlockBiometric_def data crypto_def Let_def m decrypt_encrypt importKey_exportKey)
qed

theorem unlock_recovers_registered_key_witness:
  "snd (registerBiometric (sim_authenticator False True) (crypto toy_gcm [9, 8, 7]) [5, 6, 7, 8] [1, 1] [2, 2]
          (CryptoKey [42, 43, 44, 45]) [0x75, 0x31]) =
     Inr \<lparr>bd_credentialId = ''AQIDBA=='', bd_salt = ''BQYHCA=='',
          bd_encryptedKey = ''QWJ7ekJeMTAKPwAAAAAAAAAAAAAAAAAA'', bd_iv = ''CQgH''\<rparr>
   \<and> prf_stable (sim_authenticator False True) sim_prf
   \<and> decodeBase64 ''AQIDBA=='' = Inr [1, 2, 3, 4]
   \<and> decodeBase64 ''BQYHCA=='' = Inr [5, 6, 7, 8]
   \<and> credentials_get (sim_authenticator False True)
        (assertionOptions (sim_authenticator False True) [3, 3] [1, 2, 3, 4] [5, 6, 7, 8]) =
      Inr (Some \<lparr>asr_prf_first = Some (sim_prf [1, 2, 3, 4] [5, 6, 7, 8])\<rparr>)
   \<and> unlockBiometric (sim_authenticator False True) (crypto toy_gcm [0]) [3, 3]
          \<lparr>bd_credentialId = ''AQIDBA=='', bd_salt = ''BQYHCA=='',
            bd_encryptedKey = ''QWJ7ekJeMTAKPwAAAAAAAAAAAAAAAAAA'', bd_iv = ''CQgH''\<rparr> =
     ([CredentialsGet (assertionOptions (sim_authenticator False True) [3, 3] [1, 2, 3, 4] [5, 6, 7, 8])],
      Inr (CryptoKey [42, 43, 44, 45]))"
proof -
  let ?pf = "sim_authenticator False True"
  let ?data = "\<lparr>bd_credentialId = ''AQIDBA=='', bd_salt = ''BQYHCA=='',
          bd_encryptedKey = ''QWJ7ekJeMTAKPwAAAAAAAAAAAAAAAAAA'', bd_iv = ''CQgH''\<rparr>"
  let ?opts = "assertionOptions ?pf [3, 3] [1, 2, 3, 4] [5, 6, 7, 8]"
  have reg: "snd (registerBiometric ?pf (crypto toy_gcm [9, 8, 7]) [5, 6, 7, 8] [1, 1] [2, 2]
          (CryptoKey [42, 43, 44, 45]) [0x75, 0x31]) = Inr ?data"
    by (simp add: sim_register_B)
  have id: "decodeBase64 (bd_credentialId ?data) = Inr [1, 2, 3, 4]"
    and salt: "decodeBase64 (bd_salt ?data) = Inr [5, 6, 7, 8]"
    by (simp_all add: b64_eval)
  have answered: "credentials_get ?pf ?opts = Inr (Some \<lparr>asr_prf_first = Some (sim_prf [1, 2, 3, 4] [5, 6, 7, 8])\<rparr>)"
    by (simp add: sim_authenticator_def assertionOptions_def)
  show ?thesis
    using unlock_recovers_registered_key [OF reg sim_authenticator_stable id salt answered]
      reg sim_authenticator_stable id salt answered
    by simp
qed

section \<open>First-time setup\<close>

text \<open>
  C10.  \<open>handleSubmit\<close> rejects every password of fewer than 6 characters (UTF-16 code
  units, what \<open>password.length\<close> counts) with the error "Password must be at least 6
  characters long." and does nothing else: no salt, no key derivation, no encryption, no
  insert, no call of \<open>onSuccess\<close>.  So any of these happens only for a password of length
  at least 6.
\<close>

theorem short_password_rejected:
  "(length (sf_password form) < 6 \<longrightarrow>
      handleSubmit imp user form =
        \<lparr>so_form = form\<lparr>sf_error := Some ''Password must be at least 6 characters long.''\<rparr>,
         so_events = [],
         so_onSuccess = None\<rparr>)
   \<and> ((\<exists>e \<in> set (so_events (handleSubmit imp user form)). is_crypto_call e \<or> is_store_write e)
        \<longrightarrow> 6 \<le> length (sf_password form))
   \<and> (so_onSuccess (handleSubmit imp user form) \<noteq> None \<longrightarrow> 6 \<le> length (sf_password form))"
proof -
  have short: "handleSubmit imp user form =
        \<lparr>so_form = form\<lparr>sf_error := Some ''Password must be at least 6 characters long.''\<rparr>,
         so_events = [],
         so_onSuccess = None\<rparr>"
    if "length (sf_password form) < 6"
    using that by (simp add: handleSubmit_def)
  show ?thesis
  proof (cases "length (sf_password form) < 6")
    case True
    then show ?thesis
      using short [OF True] by simp
  next
    case False
    then show ?thesis by simp
  qed
qed

theorem short_password_rejected_witness:
  "length (sf_password \<lparr>sf_password = [0x61, 0x62, 0x63, 0x64, 0x65], sf_loading = False, sf_error = None\<rparr>) < 6
   \<and> handleSubmit (sim_setup None)
         (Some \<lparr>su_id = [0x75, 0x31], su_full_name = None, su_avatar_url = None\<rparr>)
         \<lparr>sf_password = [0x61, 0x62, 0x63, 0x64, 0x65], sf_loading = False, sf_error = None\<rparr> =
       \<lparr>so_form = \<lparr>sf_password = [0x61, 0x62, 0x63, 0x64, 0x65], sf_loading = False,
                   sf_error = Some ''Password must be at least 6 characters long.''\<rparr>,
        so_events = [],
        so_onSuccess = None\<rparr>
   \<and> so_onSuccess (handleSubmit (sim_setup None)
         (Some \<lparr>su_id = [0x75, 0x31], su_full_name = None, su_avatar_url = None\<rparr>)
         \<lparr>sf_password = [0x61, 0x62, 0x63, 0x64, 0x65, 0x66], sf_loading = False, sf_error = None\<rparr>) =
       Some (CryptoKey ([0x61, 0x62, 0x63, 0x64, 0x65, 0x66] @ utf8_bytes ''BQYHCA==''))
   \<and> 6 \<le> length (sf_password \<lparr>sf_password = [0x61, 0x62, 0x63, 0x64, 0x65, 0x66 :: 16 word],
                                sf_loading = False, sf_error = None\<rparr>)"
proof -
  let ?u = "Some \<lparr>su_id = [0x75, 0x31], su_full_name = None, su_avatar_url = None\<rparr>"
  let ?short = "\<lparr>sf_password = [0x61, 0x62, 0x63, 0x64, 0x65], sf_loading = False, sf_error = None\<rparr>"
  let ?long = "\<lparr>sf_password = [0x61, 0x62, 0x63, 0x64, 0x65, 0x66], sf_loading = False, sf_error = None\<rparr>"
  have ok: "so_onSuccess (handleSubmit (sim_setup None) ?u ?long) =
       Some (CryptoKey ([0x61, 0x62, 0x63, 0x64, 0x65, 0x66] @ utf8_bytes ''BQYHCA==''))"
    by (simp add: handleSubmit_def sim_setup_def Let_def)
  show ?thesis
    using short_password_rejected [of ?short "sim_setup None" ?u]
      short_password_rejected [of ?long "sim_setup None" ?u]
    by (simp add: ok)
qed

text \<open>
  C7.  Given a password of at least 6 characters, a signed-in user, a key derivation and
  an encryption that succeed, \<open>handleSubmit\<close> generates a salt, derives the key from the
  password and that salt, encrypts \<open>KEY_CHECK_STRING\<close> under that key, and makes one
  insert, of a row that carries that salt together with the \<open>data\<close> and \<open>iv\<close> of that
  encryption; these are all its calls, in this order, and it hands the key to \<open>onSuccess\<close>
  exactly when the insert returned no error.  In every run, whenever a row is inserted it
  is that row after those calls, and there is at most one insert and at most one
  encryption.  Salt and key check therefore reach the store in the same row or not at
  all.
\<close>

theorem setup_persists_salt_with_key_check:
  "(6 \<le> length (sf_password form) \<and> user = Some u \<and>
    deriveKey imp (sf_password form) (generateSalt imp) = Inr k \<and>
    su_encrypt imp k (KEY_CHECK_STRING imp) = Inr enc \<longrightarrow>
      so_events (handleSubmit imp user form) =
        [GenerateSalt, DeriveKey (sf_password form) (generateSalt imp),
         Encrypt k (KEY_CHECK_STRING imp), ProfilesInsert (key_setup_row imp u enc)]
        @ (if profiles_insert imp (key_setup_row imp u enc) = None then [] else [ConsoleError]) \<and>
      so_onSuccess (handleSubmit imp user form) =
        (if profiles_insert imp (key_setup_row imp u enc) = None then Some k else None))
   \<and> (\<forall>row. ProfilesInsert row \<in> set (so_events (handleSubmit imp user form)) \<longrightarrow>
      (\<exists>u k enc.
         user = Some u \<and>
         deriveKey imp (sf_password form) (generateSalt imp) = Inr k \<and>
         su_encrypt imp k (KEY_CHECK_STRING imp) = Inr enc \<and>
         row = key_setup_row imp u enc \<and>
         take 4 (so_events (handleSubmit imp user form)) =
           [GenerateSalt, DeriveKey (sf_password form) (generateSalt imp),
            Encrypt k (KEY_CHECK_STRING imp), ProfilesInsert row] \<and>
         (so_onSuccess (handleSubmit imp user form) =
            (if profiles_insert imp row = None then Some k else None))))
   \<and> (so_onSuccess (handleSubmit imp user form) \<noteq> None \<longrightarrow>
        (\<exists>row. ProfilesInsert row \<in> set (so_events (handleSubmit imp user form))))
   \<and> length (filter is_store_write (so_events (handleSubmit imp user form))) \<le> 1
   \<and> length (filter is_encrypt_call (so_events (handleSubmit imp user form))) \<le> 1"
proof -
  have progress: "so_events (handleSubmit imp user form) =
        [GenerateSalt, DeriveKey (sf_password form) (generateSalt imp),
         Encrypt k (KEY_CHECK_STRING imp), ProfilesInsert (key_setup_row imp u enc)]
        @ (if profiles_insert imp (key_setup_row imp u enc) = None then [] else [ConsoleError]) \<and>
      so_onSuccess (handleSubmit imp user form) =
        (if profiles_insert imp (key_setup_row imp u enc) = None then Some k else None)"
    if "6 \<le> length (sf_password form)" "user = Some u"
      "deriveKey imp (sf_password form) (generateSalt imp) = Inr k"
      "su_encrypt imp k (KEY_CHECK_STRING imp) = Inr enc"
    using that
    by (auto simp: handleSubmit_def setup_failed_def key_setup_row_def Let_def
             split: option.splits)
  have safety: "(\<forall>row. ProfilesInsert row \<in> set (so_events (handleSubmit imp user form)) \<longrightarrow>
      (\<exists>u k enc.
         user = Some u \<and>
         deriveKey imp (sf_password form) (generateSalt imp) = Inr k \<and>
         su_encrypt imp k (KEY_CHECK_STRING imp) = Inr enc \<and>
         row = key_setup_row imp u enc \<and>
         take 4 (so_events (handleSubmit imp user form)) =
           [GenerateSalt, DeriveKey (sf_password form) (generateSalt imp),
            Encrypt k (KEY_CHECK_STRING imp), ProfilesInsert row] \<and>
         (so_onSuccess (handleSubmit imp user form) =
            (if profiles_insert imp row = None then Some k else None))))
   \<and> (so_onSuccess (handleSubmit imp user form) \<noteq> None \<longrightarrow>
        (\<exists>row. ProfilesInsert row \<in> set (so_events (handleSubmit imp user form))))
   \<and> length (filter is_store_write (so_events (handleSubmit imp user form))) \<le> 1
   \<and> length (filter is_encrypt_call (so_events (handleSubmit imp user form))) \<le> 1"
    by (auto simp: handleSubmit_def setup_failed_def key_setup_row_def Let_def
             split: option.splits sum.splits)
  from progress safety show ?thesis by blast
qed

theorem setup_persists_salt_with_key_check_witness:
  "6 \<le> length (sf_password sample_form)
   \<and> deriveKey (sim_setup None) (sf_password sample_form) (generateSalt (sim_setup None)) = Inr sample_key
   \<and> su_encrypt (sim_setup None) sample_key (KEY_CHECK_STRING (sim_setup None)) =
       Inr (encrypt toy_gcm [1, 2, 3] sample_key ''key-check'')
   \<and> key_setup_row (sim_setup None) sample_user (encrypt toy_gcm [1, 2, 3] sample_key ''key-check'') =
       sample_profile
   \<and> so_events (handleSubmit (sim_setup None) (Some sample_user) sample_form) =
       [GenerateSalt, DeriveKey (sf_password sample_form) ''BQYHCA=='',
        Encrypt sample_key ''key-check'', ProfilesInsert sample_profile]
   \<and> so_onSuccess (handleSubmit (sim_setup None) (Some sample_user) sample_form) = Some sample_key
   \<and> so_events (handleSubmit (sim_setup (Some (StorageError ''duplicate key''))) (Some sample_user)
        sample_form) =
       [GenerateSalt, DeriveKey (sf_password sample_form) ''BQYHCA=='',
        Encrypt sample_key ''key-check'', ProfilesInsert sample_profile, ConsoleError]
   \<and> so_onSuccess (handleSubmit (sim_setup (Some (StorageError ''duplicate key''))) (Some sample_user)
        sample_form) = None"
proof -
  have len: "6 \<le> length (sf_password sample_form)"
    by (simp add: sample_form_def)
  have derived: "deriveKey (sim_setup e) (sf_password sample_form) ''BQYHCA=='' = Inr sample_key" for e
    by (simp add: sim_setup_def sample_key_def)
  have encrypted: "su_encrypt (sim_setup e) sample_key ''key-check'' =
      Inr (encrypt toy_gcm [1, 2, 3] sample_key ''key-check'')" for e
    by (simp add: sim_setup_def)
  have row: "key_setup_row (sim_setup e) sample_user (encrypt toy_gcm [1, 2, 3] sample_key ''key-check'') =
      sample_profile" for e
    by (simp add: key_setup_row_def sim_setup_def sample_user_def sample_profile_def)
  have salt: "generateSalt (sim_setup e) = ''BQYHCA==''" "KEY_CHECK_STRING (sim_setup e) = ''key-check''"
      "profiles_insert (sim_setup e) r = e" for e r
    by (simp_all add: sim_setup_def)
  show ?thesis
    using setup_persists_salt_with_key_check [of sample_form "Some sample_user" sample_user
        "sim_setup None" sample_key "encrypt toy_gcm [1, 2, 3] sample_key ''key-check''"]
      setup_persists_salt_with_key_check [of sample_form "Some sample_user" sample_user
        "sim_setup (Some (StorageError ''duplicate key''))" sample_key
        "encrypt toy_gcm [1, 2, 3] sample_key ''key-check''"]
    by (simp add: len derived encrypted row salt)
qed

section \<open>The key lifecycle\<close>

lemma lifecycle_inv_start: "lifecycle_inv session_start"
  by (simp add: lifecycle_inv_def session_start_def)

lemma lifecycle_inv_perform:
  "lifecycle_inv s \<Longrightarrow> enabled a s \<Longrightarrow> lifecycle_inv (perform a s)"
  by (cases a)
     (auto simp: lifecycle_inv_def checkKeyStatus_def checkKeyStatus_resume_def handleKeyReady_def
           split: option.splits sum.splits)

lemma lifecycle_inv_run:
  "lifecycle_inv s \<Longrightarrow> run acts s = Some s' \<Longrightarrow> lifecycle_inv s'"
proof (induction acts arbitrary: s)
  case Nil
  then show ?case by simp
next
  case (Cons a acts)
  from Cons.prems have en: "enabled a s" and rest: "run acts (perform a s) = Some s'"
    by (auto split: if_splits)
  have "lifecycle_inv (perform a s)"
    using Cons.prems(1) en by (rule lifecycle_inv_perform)
  then show ?case
    using rest by (rule Cons.IH)
qed

text \<open>
  C5.  In every state a session reaches while \<open>keyStatus\<close> is \<open>'checking'\<close>, no key is held
  and only \<open>checkKeyStatus\<close> acts: the effect starts it, which sends the profile lookup
  and leaves the state \<open>'checking'\<close>, or a lookup answers.  If the answer is that there is
  no profile the state becomes \<open>'needed'\<close>; if there is one, \<open>'reauth'\<close>; if the lookup
  itself failed the state stays \<open>'checking'\<close> (the code then signs the user out).  No other
  transition leaves \<open>'checking'\<close>.
\<close>

theorem checking_selects_by_lookup:
  assumes "run acts session_start = Some s"
    and "app_keyStatus s = Checking"
    and "enabled a s"
  shows "app_key s = None \<and>
         (case a of
            EffectRuns \<Rightarrow>
              app_keyStatus (perform a s) = Checking \<and> app_pending (perform a s) = Suc (app_pending s)
          | LookupAnswers lookup \<Rightarrow>
              app_keyStatus (perform a s) =
                (case lookup of
                   Inl e \<Rightarrow> Checking
                 | Inr None \<Rightarrow> Needed
                 | Inr (Some profile) \<Rightarrow> ReAuth)
          | SetupSuccess k \<Rightarrow> False
          | PasswordSuccess k \<Rightarrow> False
          | OtherHandler \<Rightarrow> False)"
proof -
  have inv: "lifecycle_inv s"
    using lifecycle_inv_start assms(1) by (rule lifecycle_inv_run)
  with assms(2) have none: "app_key s = None"
    by (auto simp: lifecycle_inv_def split: option.splits)
  show ?thesis
  proof (cases a)
    case EffectRuns
    then show ?thesis
      using none assms(2) by (simp add: checkKeyStatus_def)
  next
    case (LookupAnswers lookup)
    then show ?thesis
      using none assms(2) by (simp add: checkKeyStatus_resume_def split: sum.splits option.splits)
  next
    case (SetupSuccess k)
    then show ?thesis using assms(2,3) by simp
  next
    case (PasswordSuccess k)
    then show ?thesis using assms(2,3) by simp
  next
    case OtherHandler
    then show ?thesis using assms(2,3) by simp
  qed
qed

theorem checking_selects_by_lookup_witness:
  "run [EffectRuns] (session_start :: nat diary_app) =
     Some \<lparr>app_key = None, app_keyStatus = Checking, app_key_writes = [], app_pending = 1,
           app_events = []\<rparr>
   \<and> app_keyStatus (perform (LookupAnswers (Inr None))
        \<lparr>app_key = None :: nat option, app_keyStatus = Checking, app_key_writes = [], app_pending = 1,
         app_events = []\<rparr>) = Needed
   \<and> app_keyStatus (perform (LookupAnswers (Inr (Some [0x75, 0x31])))
        \<lparr>app_key = None :: nat option, app_keyStatus = Checking, app_key_writes = [], app_pending = 1,
         app_events = []\<rparr>) = ReAuth
   \<and> app_keyStatus (perform (LookupAnswers (Inl (StorageError ''timeout'')))
        \<lparr>app_key = None :: nat option, app_keyStatus = Checking, app_key_writes = [], app_pending = 1,
         app_events = []\<rparr>) = Checking
   \<and> app_pending (perform EffectRuns
        \<lparr>app_key = None :: nat option, app_keyStatus = Checking, app_key_writes = [], app_pending = 1,
         app_events = []\<rparr>) = 2"
proof -
  let ?s = "\<lparr>app_key = None :: nat option, app_keyStatus = Checking, app_key_writes = [],
             app_pending = 1, app_events = []\<rparr>"
  have r: "run [EffectRuns] (session_start :: nat diary_app) = Some ?s"
    by (simp add: session_start_def checkKeyStatus_def)
  have c: "app_keyStatus ?s = Checking" by simp
  have e: "enabled (LookupAnswers l) ?s" "enabled EffectRuns ?s" for l by simp_all
  show ?thesis
    using checking_selects_by_lookup [OF r c e(1), of "Inr None"]
      checking_selects_by_lookup [OF r c e(1), of "Inr (Some [0x75, 0x31])"]
      checking_selects_by_lookup [OF r c e(1), of "Inl (StorageError ''timeout'')"]
      checking_selects_by_lookup [OF r c e(2)]
      r
    by simp
qed

text \<open>Without a lookup in flight, \<open>'ready'\<close> is kept and the key is not written again: the
  one thing that leaves \<open>'ready'\<close> is the continuation of a lookup sent before.\<close>

lemma ready_perform_without_pending:
  "app_key s \<noteq> None \<Longrightarrow> app_keyStatus s = Ready \<Longrightarrow> app_pending s = 0 \<Longrightarrow> enabled a s \<Longrightarrow>
   app_key (perform a s) = app_key s \<and> app_key_writes (perform a s) = app_key_writes s \<and>
   app_keyStatus (perform a s) = Ready \<and> app_pending (perform a s) = 0"
  by (cases a) (auto simp: checkKeyStatus_def)

lemma ready_run_without_pending:
  "app_key s \<noteq> None \<Longrightarrow> app_keyStatus s = Ready \<Longrightarrow> app_pending s = 0 \<Longrightarrow>
   run acts s = Some s' \<Longrightarrow>
   app_key s' = app_key s \<and> app_key_writes s' = app_key_writes s \<and> app_keyStatus s' = Ready"
proof (induction acts arbitrary: s)
  case Nil
  then show ?case by simp
next
  case (Cons a acts)
  from Cons.prems(4) have en: "enabled a s" and rest: "run acts (perform a s) = Some s'"
    by (auto split: if_splits)
  have step: "app_key (perform a s) = app_key s \<and> app_key_writes (perform a s) = app_key_writes s \<and>
      app_keyStatus (perform a s) = Ready \<and> app_pending (perform a s) = 0"
    using Cons.prems(1-3) en by (rule ready_perform_without_pending)
  with Cons.prems(1) have "app_key (perform a s) \<noteq> None" by simp
  from Cons.IH [OF this _ _ rest] step show ?case by simp
qed


section \<open>Loading the entries\<close>

lemma fulfilled_decryptEntry:
  "fulfilled (decryptEntry dec parse k r) \<longleftrightarrow> \<not> row_fails dec parse k r"
  by (simp add: decryptEntry_def row_fails_def split: sum.splits prod.splits)

lemma fulfilled_results_readable:
  "map projr (filter fulfilled (map (decryptEntry dec parse k) rows)) =
   readable_entries dec parse k rows"
  by (induction rows)
     (simp_all add: readable_entries_def decryptEntry_def split: sum.splits prod.splits)

lemma length_readable_rejected:
  "length (readable_entries dec parse k rows) + length (rejected_rows dec parse k rows) = length rows"
  by (induction rows)
     (simp_all add: readable_entries_def rejected_rows_def row_fails_def split: sum.splits prod.splits)

lemma sample_rows_decrypt:
  "decrypt toy_gcm (CryptoKey [42, 43, 44, 45]) (dr_encrypted_entry sample_row0) (dr_iv sample_row0) =
     Inr ''t0|c''"
  "decrypt toy_gcm (CryptoKey [42, 43, 44, 45]) (dr_encrypted_entry sample_row1) (dr_iv sample_row1) =
     Inr ''t1|c''"
  "decrypt toy_gcm (CryptoKey [42, 43, 44, 45]) (dr_encrypted_entry sample_row2) (dr_iv sample_row2) =
     Inr ''t2|c''"
  "decrypt toy_gcm (CryptoKey [42, 43, 44, 45]) (dr_encrypted_entry sample_row4) (dr_iv sample_row4) =
     Inr ''t4|c''"
  "decrypt toy_gcm (CryptoKey [42, 43, 44, 45]) (dr_encrypted_entry sample_row5) (dr_iv sample_row5) =
     Inr ''t5|c''"
  "decrypt toy_gcm (CryptoKey [42, 43, 44, 45]) (dr_encrypted_entry sample_row6) (dr_iv sample_row6) =
     Inr ''t6|c''"
  "decrypt toy_gcm (CryptoKey [42, 43, 44, 45]) (dr_encrypted_entry sample_row8) (dr_iv sample_row8) =
     Inr ''t8|c''"
  "decrypt toy_gcm (CryptoKey [42, 43, 44, 45]) (dr_encrypted_entry sample_row9) (dr_iv sample_row9) =
     Inr ''t9|c''"
  "decrypt toy_gcm (CryptoKey [42, 43, 44, 45]) (dr_encrypted_entry sample_row3) (dr_iv sample_row3) =
     Inl IntegrityError"
  "decrypt toy_gcm (CryptoKey [42, 43, 44, 45]) (dr_encrypted_entry sample_row7) (dr_iv sample_row7) =
     Inl IntegrityError"
  by (simp_all add: sample_row0_def sample_row1_def sample_row2_def sample_row3_def sample_row4_def
      sample_row5_def sample_row6_def sample_row7_def sample_row8_def sample_row9_def toy_gcm_def
      replicate_numeral_eval cipher_eval b64_eval)

lemma sample_texts_parse:
  "toy_parse ''t0|c'' = Inr (''t0'', ''c'')"
  "toy_parse ''t1|c'' = Inr (''t1'', ''c'')"
  "toy_parse ''t2|c'' = Inr (''t2'', ''c'')"
  "toy_parse ''t4|c'' = Inr (''t4'', ''c'')"
  "toy_parse ''t5|c'' = Inr (''t5'', ''c'')"
  "toy_parse ''t6|c'' = Inr (''t6'', ''c'')"
  "toy_parse ''t8|c'' = Inr (''t8'', ''c'')"
  "toy_parse ''t9|c'' = Inr (''t9'', ''c'')"
  by (simp_all add: toy_parse_def)

lemmas sample_rows_read = sample_rows_decrypt sample_texts_parse

lemma sample_rows_fails:
  "row_fails (decrypt toy_gcm) toy_parse (CryptoKey [42, 43, 44, 45]) sample_row0 \<longleftrightarrow> False"
  "row_fails (decrypt toy_gcm) toy_parse (CryptoKey [42, 43, 44, 45]) sample_row1 \<longleftrightarrow> False"
  "row_fails (decrypt toy_gcm) toy_parse (CryptoKey [42, 43, 44, 45]) sample_row2 \<longleftrightarrow> False"
  "row_fails (decrypt toy_gcm) toy_parse (CryptoKey [42, 43, 44, 45]) sample_row3 \<longleftrightarrow> True"
  "row_fails (decrypt toy_gcm) toy_parse (CryptoKey [42, 43, 44, 45]) sample_row4 \<longleftrightarrow> False"
  "row_fails (decrypt toy_gcm) toy_parse (CryptoKey [42, 43, 44, 45]) sample_row5 \<longleftrightarrow> False"
  "row_fails (decrypt toy_gcm) toy_parse (CryptoKey [42, 43, 44, 45]) sample_row6 \<longleftrightarrow> False"
  "row_fails (decrypt toy_gcm) toy_parse (CryptoKey [42, 43, 44, 45]) sample_row7 \<longleftrightarrow> True"
  "row_fails (decrypt toy_gcm) toy_parse (CryptoKey [42, 43, 44, 45]) sample_row8 \<longleftrightarrow> False"
  "row_fails (decrypt toy_gcm) toy_parse (CryptoKey [42, 43, 44, 45]) sample_row9 \<longleftrightarrow> False"
  by (simp_all add: row_fails_def sample_rows_read)

text \<open>
  C6.  For a fetched batch, \<open>fetchEntries\<close> completes (no alert, \<open>loading\<close> back to
  \<open>false\<close>).  The entries it sets are exactly the rows that \<open>decrypt\<close> accepted and whose
  text the parser accepted, in order, each with the title and content parsed; their number
  is the number of rows minus the number \<open>f\<close> of rows that \<open>decrypt\<close> or the parser
  rejected; and the count it reports in its warning is \<open>f\<close> (no warning when \<open>f\<close> is 0).
  In particular, 10 rows of which 2 fail give 8 entries and a reported count of 2.
\<close>

theorem fetchEntries_isolates_failures:
  "fetchEntries (Some k) dec parse (Inr (Some rows)) st =
     (st\<lparr>es_entries := readable_entries dec parse k rows, es_loading := False\<rparr>,
      if length (rejected_rows dec parse k rows) > 0
      then [ConsoleWarn (length (rejected_rows dec parse k rows))] else [])
   \<and> length (readable_entries dec parse k rows) =
       length rows - length (rejected_rows dec parse k rows)
   \<and> (length rows = 10 \<and> length (rejected_rows dec parse k rows) = 2 \<longrightarrow>
        length (es_entries (fst (fetchEntries (Some k) dec parse (Inr (Some rows)) st))) = 8 \<and>
        snd (fetchEntries (Some k) dec parse (Inr (Some rows)) st) = [ConsoleWarn 2])"
proof -
  let ?results = "map (decryptEntry dec parse k) rows"
  have entries: "map projr (filter fulfilled ?results) = readable_entries dec parse k rows"
    by (rule fulfilled_results_readable)
  have count: "length (readable_entries dec parse k rows) + length (rejected_rows dec parse k rows) =
      length rows"
    by (rule length_readable_rejected)
  then have failed: "length ?results - length (readable_entries dec parse k rows) =
      length (rejected_rows dec parse k rows)"
    by simp
  have run: "fetchEntries (Some k) dec parse (Inr (Some rows)) st =
     (st\<lparr>es_entries := readable_entries dec parse k rows, es_loading := False\<rparr>,
      if length (rejected_rows dec parse k rows) > 0
      then [ConsoleWarn (length (rejected_rows dec parse k rows))] else [])"
    unfolding fetchEntries_def Let_def by (simp only: option.case sum.case entries failed)
  have kept: "length (readable_entries dec parse k rows) =
      length rows - length (rejected_rows dec parse k rows)"
    using count by simp
  show ?thesis
    using kept by (simp add: run)
qed

theorem fetchEntries_isolates_failures_witness:
  "length sample_rows = 10
   \<and> rejected_rows (decrypt toy_gcm) toy_parse (CryptoKey [42, 43, 44, 45]) sample_rows =
       [sample_row3, sample_row7]
   \<and> fetchEntries (Some (CryptoKey [42, 43, 44, 45])) (decrypt toy_gcm) toy_parse
         (Inr (Some sample_rows)) \<lparr>es_entries = [], es_loading = True\<rparr> =
       (\<lparr>es_entries =
         [\<lparr>de_row = sample_row0, de_title = ''t0'', de_content = ''c''\<rparr>,
          \<lparr>de_row = sample_row1, de_title = ''t1'', de_content = ''c''\<rparr>,
          \<lparr>de_row = sample_row2, de_title = ''t2'', de_content = ''c''\<rparr>,
          \<lparr>de_row = sample_row4, de_title = ''t4'', de_content = ''c''\<rparr>,
          \<lparr>de_row = sample_row5, de_title = ''t5'', de_content = ''c''\<rparr>,
          \<lparr>de_row = sample_row6, de_title = ''t6'', de_content = ''c''\<rparr>,
          \<lparr>de_row = sample_row8, de_title = ''t8'', de_content = ''c''\<rparr>,
          \<lparr>de_row = sample_row9, de_title = ''t9'', de_content = ''c''\<rparr>],
         es_loading = False\<rparr>,
        [ConsoleWarn 2])
   \<and> length (es_entries (fst (fetchEntries (Some (CryptoKey [42, 43, 44, 45])) (decrypt toy_gcm)
         toy_parse (Inr (Some sample_rows)) \<lparr>es_entries = [], es_loading = True\<rparr>))) = 8"
proof -
  have n: "length sample_rows = 10"
    by (simp add: sample_rows_def)
  have rej: "rejected_rows (decrypt toy_gcm) toy_parse (CryptoKey [42, 43, 44, 45]) sample_rows =
      [sample_row3, sample_row7]"
    by (simp add: rejected_rows_def sample_rows_def sample_rows_fails)
  show ?thesis
    using fetchEntries_isolates_failures [of "CryptoKey [42, 43, 44, 45]" "decrypt toy_gcm" toy_parse
        sample_rows "\<lparr>es_entries = [], es_loading = True\<rparr>"]
    by (simp add: n rej) (simp add: readable_entries_def sample_rows_def sample_rows_read)
qed

end
